theory Spec2Isabelle
  imports Main
begin

text \<open>
  A model of the MCP command-line client of \<open>mcp-client.ts\<close>: the schema adapter
  \<open>openAiToolAdapter\<close> and the methods \<open>connectToServer\<close>, \<open>processQuery\<close>,
  \<open>callTools\<close> and \<open>chatLoop\<close> of the class \<open>MCPClient\<close>. The completion API, the
  tool server and the JSON functions of the runtime are parameters of the model. A method
  takes the client and returns what it returns or throws, the client after the call, and
  the trace of what it did, in order. \<open>cleanup\<close> and \<open>main\<close> are not modelled.
\<close>

section \<open>JSON values\<close>

text \<open>
  Values that cross the two wire formats (tool schemas, tool arguments, tool results) are
  JSON values. The number type is a parameter: the orchestration never computes with
  numbers, it only tests one for being zero (the \<open>||\<close> operator of the source).
  An object keeps its members as an association list, in the order of its own keys.
\<close>

datatype 'n json =
    JNull
  | JBool bool
  | JNum 'n
  | JStr string
  | JArr "'n json list"
  | JObj "(string \<times> 'n json) list"

text \<open>The values the \<open>||\<close> operator lets through: everything but
  \<open>null\<close>, \<open>false\<close>, \<open>0\<close> and the empty string.\<close>

fun truthy :: "('n::zero) json \<Rightarrow> bool" where
  "truthy JNull = False"
| "truthy (JBool b) = b"
| "truthy (JNum n) = (n \<noteq> 0)"
| "truthy (JStr s) = (s \<noteq> [])"
| "truthy (JArr _) = True"
| "truthy (JObj _) = True"

text \<open>\<open>s || d\<close> on an optional string: \<open>undefined\<close> and the empty string give \<open>d\<close>.\<close>

definition truthy_string :: "string option \<Rightarrow> bool" where
  "truthy_string s = (case s of None \<Rightarrow> False | Some t \<Rightarrow> t \<noteq> [])"

definition string_or :: "string option \<Rightarrow> string \<Rightarrow> string" where
  "string_or s d = (case s of None \<Rightarrow> d | Some t \<Rightarrow> if t \<noteq> [] then t else d)"

text \<open>\<open>v || d\<close> on the outcome of a property read (\<open>None\<close> is \<open>undefined\<close>).\<close>

definition json_or :: "('n::zero) json option \<Rightarrow> 'n json \<Rightarrow> 'n json" where
  "json_or v d = (case v of None \<Rightarrow> d | Some j \<Rightarrow> if truthy j then j else d)"

section \<open>Failures\<close>

text \<open>
  Every \<open>throw\<close> and every rejected promise of the source is a value. \<open>'x\<close> is whatever
  a collaborator (the completion API, the tool server) rejects with.
\<close>

datatype 'x failure =
    TypeError                 \<comment> \<open>a property read on \<open>null\<close> or \<open>undefined\<close>\<close>
  | SyntaxError               \<comment> \<open>\<open>JSON.parse\<close> on a text that is not JSON\<close>
  | ScriptKindError           \<comment> \<open>"Server script must be a .js or .py file"\<close>
  | CompletionRejected 'x     \<comment> \<open>\<open>openai.chat.completions.create\<close> rejected\<close>
  | CallToolRejected 'x       \<comment> \<open>\<open>mcp.callTool\<close> rejected\<close>
  | ListToolsRejected 'x      \<comment> \<open>\<open>mcp.listTools\<close> rejected\<close>

section \<open>The schema adapter\<close>

record 'n tool =
  name :: string
  description :: "string option"
  input_schema :: "'n json"

record 'n parameters =
  parameters_type :: string
  properties :: "'n json"
  required :: "'n json"

record 'n function_spec =
  function_name :: string
  function_description :: string
  function_parameters :: "'n parameters"

record 'n openai_tool =
  tool_type :: string
  tool_function :: "'n function_spec"

text \<open>
  A property read \<open>v.key\<close> where \<open>v\<close> came off the wire: it throws on \<open>null\<close>, finds
  the member of an object, and is \<open>undefined\<close> on anything else (none of the keys read
  here is a built-in property of a string, a number, a boolean or an array).
\<close>

definition get_property :: "'n json \<Rightarrow> string \<Rightarrow> 'x failure + 'n json option" where
  "get_property v key =
     (case v of
        JNull \<Rightarrow> Inl TypeError
      | JObj members \<Rightarrow> Inr (map_of members key)
      | _ \<Rightarrow> Inr None)"

definition openAiToolAdapter :: "('n::zero) tool \<Rightarrow> 'x failure + 'n openai_tool" where
  "openAiToolAdapter tool =
     (case get_property (input_schema tool) ''properties'' of
        Inl e \<Rightarrow> Inl e
      | Inr props \<Rightarrow>
          (case get_property (input_schema tool) ''required'' of
             Inl e \<Rightarrow> Inl e
           | Inr req \<Rightarrow>
               Inr \<lparr> tool_type = ''function'',
                     tool_function =
                       \<lparr> function_name = name tool,
                         function_description =
                           string_or (description tool) (''Tool: '' @ name tool),
                         function_parameters =
                           \<lparr> parameters_type = ''object'',
                             properties = json_or props (JObj []),
                             required = json_or req (JArr []) \<rparr> \<rparr> \<rparr>))"

text \<open>
  \<open>toolsResult.tools.map(...)\<close>: the adapter runs on each discovered tool in order, and
  the first throw ends the mapping.
\<close>

fun adapt_each :: "('n::zero) tool list \<Rightarrow> 'x failure + 'n openai_tool list" where
  "adapt_each [] = Inr []"
| "adapt_each (t # ts) =
     (case openAiToolAdapter t of
        Inl e \<Rightarrow> Inl e
      | Inr spec \<Rightarrow> (case adapt_each ts of Inl e \<Rightarrow> Inl e | Inr specs \<Rightarrow> Inr (spec # specs)))"

section \<open>Messages, requests and results\<close>

record tool_call =
  call_id :: string            \<comment> \<open>\<open>toolCall.id\<close>\<close>
  call_name :: string          \<comment> \<open>\<open>toolCall.function.name\<close>\<close>
  call_arguments :: string     \<comment> \<open>\<open>toolCall.function.arguments\<close>, a JSON text\<close>

record completion_message =
  content :: "string option"                \<comment> \<open>\<open>None\<close> is \<open>null\<close>\<close>
  tool_calls :: "tool_call list option"     \<comment> \<open>\<open>None\<close> is an absent field\<close>

record choice =
  message :: completion_message

record completion =
  choices :: "choice list"

datatype chat_message =
    UserMessage string                          \<comment> \<open>role user: content\<close>
  | AssistantMessage string "tool_call list"    \<comment> \<open>role assistant: content, tool_calls\<close>
  | ToolMessage "string option" string          \<comment> \<open>role tool: content, tool_call_id\<close>

record 'n request =
  model :: string
  max_tokens :: nat
  messages :: "chat_message list"
  request_tools :: "'n openai_tool list option"  \<comment> \<open>\<open>None\<close> is \<open>undefined\<close>: the field is not sent\<close>

record 'n call_result =
  result_content :: "'n json option"            \<comment> \<open>\<open>toolResult.content\<close>\<close>

record 'n tool_outcome =
  toolCallId :: string
  result :: "'n call_result"

record 'n listed_tool =
  listed_name :: string
  listed_description :: "string option"
  inputSchema :: "'n json"

record stdio_transport =
  command :: string
  args :: "string list"

section \<open>Collaborators and the trace of a run\<close>

text \<open>
  The completion API, the tool server and the JSON functions of the runtime are not code
  of the client: they are parameters. A collaborator answers from a state \<open>'w\<close> of its
  own and may change it; \<open>Inl\<close> is a rejected promise. \<open>JSON_parse\<close> gives \<open>None\<close>
  where \<open>JSON.parse\<close> throws.
\<close>

record ('n, 'w, 'x) collaborators =
  JSON_parse :: "string \<Rightarrow> 'n json option"
  JSON_stringify :: "'n json \<Rightarrow> string"
  completions_create :: "'n request \<Rightarrow> 'w \<Rightarrow> ('x + completion) \<times> 'w"
  mcp_connect :: "stdio_transport \<Rightarrow> 'w \<Rightarrow> 'w"
  mcp_listTools :: "'w \<Rightarrow> ('x + 'n listed_tool list) \<times> 'w"
  mcp_callTool :: "string \<Rightarrow> 'n json \<Rightarrow> 'w \<Rightarrow> ('x + 'n call_result) \<times> 'w"
  platform :: string
  execPath :: string

text \<open>What a run does, in the order it does it. Each call to a collaborator is recorded
  with what it was given and what it answered.\<close>

datatype ('n, 'x) event =
    Completion "'n request" "'x + completion"           \<comment> \<open>\<open>openai.chat.completions.create\<close>\<close>
  | Invocation string "'n json" "'x + 'n call_result"   \<comment> \<open>\<open>mcp.callTool\<close>\<close>
  | Connect stdio_transport                             \<comment> \<open>\<open>mcp.connect\<close>\<close>
  | Discovery "'x + 'n listed_tool list"                \<comment> \<open>\<open>mcp.listTools\<close>\<close>
  | Console string                                      \<comment> \<open>\<open>console.log\<close> of a string\<close>
  | ConsoleTools "string list"                          \<comment> \<open>"Connected to server with tools:"\<close>
  | ConsoleFailure "'x failure"                         \<comment> \<open>"Failed to connect to MCP server: "\<close>
  | Emit string                                         \<comment> \<open>\<open>finalText.push\<close>\<close>
  | Question                                            \<comment> \<open>\<open>rl.question\<close>\<close>
  | Close                                               \<comment> \<open>\<open>rl.close\<close>\<close>

text \<open>The fields of the client that the methods read and write, and the state of the
  collaborators behind its two handles \<open>mcp\<close> and \<open>openai\<close>.\<close>

record ('n, 'w) MCPClient =
  transport :: "stdio_transport option"
  tools :: "'n openai_tool list"
  peers :: 'w

section \<open>connectToServer\<close>

definition endsWith :: "string \<Rightarrow> string \<Rightarrow> bool" where
  "endsWith s ending =
     (length ending \<le> length s \<and> drop (length s - length ending) s = ending)"

definition as_tool :: "'n listed_tool \<Rightarrow> 'n tool" where
  "as_tool t = \<lparr> name = listed_name t, description = listed_description t,
                 input_schema = inputSchema t \<rparr>"

definition connectToServer ::
  "('n::zero, 'w, 'x) collaborators \<Rightarrow> string \<Rightarrow> ('n, 'w) MCPClient \<Rightarrow>
     ('x failure + unit) \<times> ('n, 'w) MCPClient \<times> ('n, 'x) event list" where
  "connectToServer rt serverScriptPath this =
     (let isJs = endsWith serverScriptPath ''.js'';
          isPy = endsWith serverScriptPath ''.py''
      in if \<not> isJs \<and> \<not> isPy
         then (Inl ScriptKindError, this, [ConsoleFailure ScriptKindError])
         else
           (let cmd = (if isPy
                       then (if platform rt = ''win32'' then ''python'' else ''python3'')
                       else execPath rt);
                t = \<lparr> command = cmd, args = [serverScriptPath] \<rparr>;
                this1 = this \<lparr> transport := Some t, peers := mcp_connect rt t (peers this) \<rparr>
            in case mcp_listTools rt (peers this1) of
                 (Inl x, w) \<Rightarrow>
                   (Inl (ListToolsRejected x), this1 \<lparr> peers := w \<rparr>,
                    [Connect t, Discovery (Inl x), ConsoleFailure (ListToolsRejected x)])
               | (Inr listed, w) \<Rightarrow>
                   (case adapt_each (map as_tool listed) of
                      Inl e \<Rightarrow>
                        (Inl e, this1 \<lparr> peers := w \<rparr>,
                         [Connect t, Discovery (Inr listed), ConsoleFailure e])
                    | Inr specs \<Rightarrow>
                        (Inr (), this1 \<lparr> tools := specs, peers := w \<rparr>,
                         [Connect t, Discovery (Inr listed),
                          ConsoleTools (map (\<lambda>s. function_name (tool_function s)) specs)]))))"

section \<open>callTools\<close>

text \<open>The two renderings of a tool call: the console line, and the trace line that goes
  into the answer.\<close>

definition calling :: "('n, 'w, 'x) collaborators \<Rightarrow> string \<Rightarrow> 'n json \<Rightarrow> string" where
  "calling rt toolName arguments =
     ''Calling tool '' @ toolName @ '' with args '' @ JSON_stringify rt arguments"

definition trace_line :: "('n, 'w, 'x) collaborators \<Rightarrow> string \<Rightarrow> 'n json \<Rightarrow> string" where
  "trace_line rt toolName arguments = ''['' @ calling rt toolName arguments @ '']''"

text \<open>
  The loop of \<open>callTools\<close> over the remaining tool calls. \<open>finalText\<close> is the caller's
  array: what has been pushed onto it is returned also when the loop throws.
\<close>

fun callTools_loop ::
  "('n, 'w, 'x) collaborators \<Rightarrow> tool_call list \<Rightarrow> 'n tool_outcome list \<Rightarrow> string list \<Rightarrow>
     ('n, 'w) MCPClient \<Rightarrow>
     ('x failure + 'n tool_outcome list) \<times> string list \<times> ('n, 'w) MCPClient \<times> ('n, 'x) event list"
where
  "callTools_loop rt [] toolResults finalText this = (Inr toolResults, finalText, this, [])"
| "callTools_loop rt (toolCall # rest) toolResults finalText this =
     (case JSON_parse rt (call_arguments toolCall) of
        None \<Rightarrow> (Inl SyntaxError, finalText, this, [])
      | Some arguments \<Rightarrow>
          (case mcp_callTool rt (call_name toolCall) arguments (peers this) of
             (Inl x, w) \<Rightarrow>
               (Inl (CallToolRejected x), finalText, this \<lparr> peers := w \<rparr>,
                [Console (calling rt (call_name toolCall) arguments),
                 Invocation (call_name toolCall) arguments (Inl x)])
           | (Inr toolResult, w) \<Rightarrow>
               (case callTools_loop rt rest
                       (toolResults @ [\<lparr> toolCallId = call_id toolCall, result = toolResult \<rparr>])
                       (finalText @ [trace_line rt (call_name toolCall) arguments])
                       (this \<lparr> peers := w \<rparr>) of
                  (outcome, finalText', this', events) \<Rightarrow>
                    (outcome, finalText', this',
                     [Console (calling rt (call_name toolCall) arguments),
                      Invocation (call_name toolCall) arguments (Inr toolResult),
                      Emit (trace_line rt (call_name toolCall) arguments)] @ events))))"

definition callTools ::
  "('n, 'w, 'x) collaborators \<Rightarrow> tool_call list \<Rightarrow> string list \<Rightarrow> ('n, 'w) MCPClient \<Rightarrow>
     ('x failure + 'n tool_outcome list) \<times> string list \<times> ('n, 'w) MCPClient \<times> ('n, 'x) event list"
where
  "callTools rt toolCalls finalText this = callTools_loop rt toolCalls [] finalText this"

section \<open>processQuery\<close>

text \<open>\<open>xs.join(sep)\<close>.\<close>

fun join :: "string \<Rightarrow> string list \<Rightarrow> string" where
  "join sep [] = []"
| "join sep [x] = x"
| "join sep (x # y # ys) = x @ sep @ join sep (y # ys)"

text \<open>\<open>if (c) finalText.push(c)\<close>: what the guard lets onto the array.\<close>

definition pushed :: "string option \<Rightarrow> string list" where
  "pushed c = (case c of None \<Rightarrow> [] | Some t \<Rightarrow> if t \<noteq> [] then [t] else [])"

text \<open>The parameters of both calls to the completion API.\<close>

definition create_params ::
  "('n, 'w) MCPClient \<Rightarrow> chat_message list \<Rightarrow> 'n request" where
  "create_params this msgs =
     \<lparr> model = ''gpt-4o'', max_tokens = 1000, messages = msgs,
       request_tools = (if length (tools this) > 0 then Some (tools this) else None) \<rparr>"

definition tool_message :: "('n, 'w, 'x) collaborators \<Rightarrow> 'n tool_outcome \<Rightarrow> chat_message" where
  "tool_message rt r =
     ToolMessage (map_option (JSON_stringify rt) (result_content (result r))) (toolCallId r)"

definition processQuery ::
  "('n, 'w, 'x) collaborators \<Rightarrow> string \<Rightarrow> ('n, 'w) MCPClient \<Rightarrow>
     ('x failure + string) \<times> ('n, 'w) MCPClient \<times> ('n, 'x) event list" where
  "processQuery rt query this =
     (let msgs = [UserMessage query];
          params = create_params this msgs
      in case completions_create rt params (peers this) of
           (Inl x, w) \<Rightarrow>
             (Inl (CompletionRejected x), this \<lparr> peers := w \<rparr>, [Completion params (Inl x)])
         | (Inr response, w) \<Rightarrow>
             (case choices response of
                [] \<Rightarrow> (Inl TypeError, this \<lparr> peers := w \<rparr>, [Completion params (Inr response)])
              | choice # _ \<Rightarrow>
                  (let finalText = pushed (content (message choice));
                       round1 = Completion params (Inr response) # map Emit finalText
                   in case tool_calls (message choice) of
                        None \<Rightarrow>
                          (Inr (join ''\<newline>'' finalText), this \<lparr> peers := w \<rparr>, round1)
                      | Some toolCalls \<Rightarrow>
                          (case callTools rt toolCalls finalText (this \<lparr> peers := w \<rparr>) of
                             (Inl e, _, this2, events) \<Rightarrow> (Inl e, this2, round1 @ events)
                           | (Inr toolResults, finalText2, this2, events) \<Rightarrow>
                               (let msgs2 = msgs
                                      @ [AssistantMessage
                                           (string_or (content (message choice)) [])
                                           toolCalls]
                                      @ map (tool_message rt) toolResults;
                                    params2 = create_params this2 msgs2
                                in case completions_create rt params2 (peers this2) of
                                     (Inl x, w2) \<Rightarrow>
                                       (Inl (CompletionRejected x), this2 \<lparr> peers := w2 \<rparr>,
                                        round1 @ events @ [Completion params2 (Inl x)])
                                   | (Inr response2, w2) \<Rightarrow>
                                       (case choices response2 of
                                          [] \<Rightarrow>
                                            (Inl TypeError, this2 \<lparr> peers := w2 \<rparr>,
                                             round1 @ events @ [Completion params2 (Inr response2)])
                                        | finalChoice # _ \<Rightarrow>
                                            (Inr (join ''\<newline>''
                                                    (finalText2
                                                       @ pushed (content (message finalChoice)))),
                                             this2 \<lparr> peers := w2 \<rparr>,
                                             round1 @ events
                                               @ Completion params2 (Inr response2)
                                                 # map Emit
                                                     (pushed (content (message finalChoice))))))))))"

section \<open>chatLoop\<close>

text \<open>
  How the loop ends: on the line \<open>exit\<close>, by an exception leaving it, or not at all,
  with the question never answered because the input has no further line.
\<close>

datatype 'x ending = Exited | Thrown "'x failure" | Unanswered

text \<open>
  The \<open>while (true)\<close> of \<open>chatLoop\<close>, over the lines that standard input will deliver.
  Each round reads one line, so the recursion is on that list. There is no \<open>catch\<close>
  around \<open>processQuery\<close>: what it throws leaves the loop.
\<close>

fun chatLoop_while ::
  "('n, 'w, 'x) collaborators \<Rightarrow> string list \<Rightarrow> ('n, 'w) MCPClient \<Rightarrow>
     'x ending \<times> ('n, 'w) MCPClient \<times> ('n, 'x) event list" where
  "chatLoop_while rt [] this = (Unanswered, this, [Question])"
| "chatLoop_while rt (query # later) this =
     (if query = ''exit'' then (Exited, this, [Question])
      else case processQuery rt query this of
             (Inl e, this', events) \<Rightarrow> (Thrown e, this', Question # events)
           | (Inr response, this', events) \<Rightarrow>
               (case chatLoop_while rt later this' of
                  (ending, this'', events') \<Rightarrow>
                    (ending, this'',
                     Question # events
                       @ [Console (''\<newline>'' @ ''Response:''), Console response]
                       @ events')))"

text \<open>
  \<open>try { while ... } finally { rl.close() }\<close>. The \<open>finally\<close> runs when the loop is
  left; with the question unanswered, the method is still waiting and nothing is closed.
\<close>

definition chatLoop ::
  "('n, 'w, 'x) collaborators \<Rightarrow> string list \<Rightarrow> ('n, 'w) MCPClient \<Rightarrow>
     'x ending \<times> ('n, 'w) MCPClient \<times> ('n, 'x) event list" where
  "chatLoop rt input this =
     (case chatLoop_while rt input this of
        (Unanswered, this', events) \<Rightarrow> (Unanswered, this', events)
      | (ending, this', events) \<Rightarrow> (ending, this', events @ [Close]))"

section \<open>Reading a trace\<close>

fun completions :: "('n, 'x) event list \<Rightarrow> ('n request \<times> ('x + completion)) list" where
  "completions [] = []"
| "completions (Completion params reply # es) = (params, reply) # completions es"
| "completions (_ # es) = completions es"

fun invocations :: "('n, 'x) event list \<Rightarrow> (string \<times> 'n json) list" where
  "invocations [] = []"
| "invocations (Invocation toolName arguments _ # es) = (toolName, arguments) # invocations es"
| "invocations (_ # es) = invocations es"

fun emitted :: "('n, 'x) event list \<Rightarrow> string list" where
  "emitted [] = []"
| "emitted (Emit line # es) = line # emitted es"
| "emitted (_ # es) = emitted es"

text \<open>What the tool server rejected with, in the order of the rejections.\<close>

fun rejections :: "('n, 'x) event list \<Rightarrow> 'x list" where
  "rejections [] = []"
| "rejections (Invocation _ _ (Inl x) # es) = x # rejections es"
| "rejections (_ # es) = rejections es"

text \<open>What the model asked for, read off a batch: each tool name with its parsed arguments.\<close>

definition requested :: "('n, 'w, 'x) collaborators \<Rightarrow> tool_call list \<Rightarrow> (string \<times> 'n json option) list" where
  "requested rt toolCalls = map (\<lambda>c. (call_name c, JSON_parse rt (call_arguments c))) toolCalls"

text \<open>What the tool server was given, read off a trace.\<close>

definition served :: "('n, 'x) event list \<Rightarrow> (string \<times> 'n json option) list" where
  "served events = map (\<lambda>(n, a). (n, Some a)) (invocations events)"

text \<open>The events of one tool call that the server answered.\<close>

definition block :: "('n, 'w, 'x) collaborators \<Rightarrow> string \<times> 'n json \<times> 'n call_result \<Rightarrow> ('n, 'x) event list" where
  "block rt = (\<lambda>(toolName, arguments, toolResult).
     [Console (calling rt toolName arguments),
      Invocation toolName arguments (Inr toolResult),
      Emit (trace_line rt toolName arguments)])"

section \<open>The answer, as the specification words it\<close>

text \<open>One trace line per tool call whose payload parses, in the order of the batch.\<close>

definition trace_lines :: "('n, 'w, 'x) collaborators \<Rightarrow> tool_call list \<Rightarrow> string list" where
  "trace_lines rt toolCalls =
     concat (map (\<lambda>c. case JSON_parse rt (call_arguments c) of
                          None \<Rightarrow> []
                        | Some arguments \<Rightarrow> [trace_line rt (call_name c) arguments])
                 toolCalls)"

text \<open>
  The newline-join of the content of the first reply (if any), the trace lines of its
  tool calls, and the content of the second reply (if any). Content that is \<open>null\<close> or
  the empty string is no content.
\<close>

definition answer_text ::
  "('n, 'w, 'x) collaborators \<Rightarrow> completion_message \<Rightarrow> completion_message option \<Rightarrow> string" where
  "answer_text rt first second =
     join ''\<newline>''
       (pushed (content first)
        @ (case tool_calls first of None \<Rightarrow> [] | Some toolCalls \<Rightarrow> trace_lines rt toolCalls)
        @ (case second of None \<Rightarrow> [] | Some final \<Rightarrow> pushed (content final)))"

section \<open>Reading a message list\<close>

fun user_texts :: "chat_message list \<Rightarrow> string list" where
  "user_texts [] = []"
| "user_texts (UserMessage t # ms) = t # user_texts ms"
| "user_texts (_ # ms) = user_texts ms"

fun tool_call_ids :: "chat_message list \<Rightarrow> string list" where
  "tool_call_ids [] = []"
| "tool_call_ids (ToolMessage _ i # ms) = i # tool_call_ids ms"
| "tool_call_ids (_ # ms) = tool_call_ids ms"

text \<open>
  The invariant of a message list: a tool message follows an assistant message, with
  only tool messages in between, and carries the id of one of its tool calls. \<open>ids\<close>
  are the ids a tool message may carry at this point of the list.
\<close>

fun referenced :: "string list \<Rightarrow> chat_message list \<Rightarrow> bool" where
  "referenced ids [] = True"
| "referenced ids (UserMessage _ # ms) = referenced [] ms"
| "referenced ids (AssistantMessage _ calls # ms) = referenced (map call_id calls) ms"
| "referenced ids (ToolMessage _ i # ms) = (i \<in> set ids \<and> referenced ids ms)"

section \<open>Orders of events\<close>

text \<open>
  The order that has every trace line on the answer before its tool runs: each invocation
  on the trace comes after the push of its own trace line. \<open>seen\<close> are the lines
  pushed so far.
\<close>

fun emitted_first ::
  "('n, 'w, 'x) collaborators \<Rightarrow> string list \<Rightarrow> ('n, 'x) event list \<Rightarrow> bool" where
  "emitted_first rt seen [] = True"
| "emitted_first rt seen (Emit line # es) = emitted_first rt (line # seen) es"
| "emitted_first rt seen (Invocation toolName arguments _ # es) =
     (trace_line rt toolName arguments \<in> set seen \<and> emitted_first rt seen es)"
| "emitted_first rt seen (_ # es) = emitted_first rt seen es"

text \<open>How many lines the loop has asked for.\<close>

fun questions :: "('n, 'x) event list \<Rightarrow> nat" where
  "questions [] = 0"
| "questions (Question # es) = Suc (questions es)"
| "questions (_ # es) = questions es"

section \<open>The JSON functions of the runtime, on a fragment of JSON\<close>

text \<open>
  For running whole scenarios, \<open>JSON.parse\<close> and \<open>JSON.stringify\<close> are written out
  on the JSON texts whose numbers are integers of magnitude below \<open>2^53\<close> and whose
  strings have no \<open>\u\<close> escape; \<open>json_parse\<close> rejects every other text. The
  theorems about the client do not depend on them: they hold for every pair of JSON
  functions.
\<close>

definition double_quote :: char where
  "double_quote = CHR 0x22"

definition backslash :: char where
  "backslash = CHR 0x5C"

definition quoted :: "string \<Rightarrow> string" where
  "quoted s = double_quote # s @ [double_quote]"

subsection \<open>Numerals\<close>

definition is_digit :: "char \<Rightarrow> bool" where
  "is_digit c = (48 \<le> (of_char c :: int) \<and> (of_char c :: int) \<le> 57)"

definition digit_value :: "char \<Rightarrow> int" where
  "digit_value c = of_char c - 48"

definition int_of_digits :: "string \<Rightarrow> int" where
  "int_of_digits ds = foldl (\<lambda>n c. 10 * n + digit_value c) 0 ds"

definition digit_char :: "int \<Rightarrow> char" where
  "digit_char d = char_of (48 + d)"

function digits_of :: "int \<Rightarrow> string" where
  "digits_of n =
     (if n < 10 then [digit_char n] else digits_of (n div 10) @ [digit_char (n mod 10)])"
  by pat_completeness auto
termination
  by (relation "measure nat") auto

definition digits_of_int :: "int \<Rightarrow> string" where
  "digits_of_int i = (if i < 0 then CHR ''-'' # digits_of (- i) else digits_of i)"

definition hex_char :: "int \<Rightarrow> char" where
  "hex_char d = (if d < 10 then char_of (48 + d) else char_of (87 + d))"

subsection \<open>stringify\<close>

definition escape_char :: "char \<Rightarrow> string" where
  "escape_char c =
     (if c = double_quote then [backslash, double_quote]
      else if c = backslash then [backslash, backslash]
      else if c = CHR 0x08 then [backslash, CHR ''b'']
      else if c = CHR 0x0C then [backslash, CHR ''f'']
      else if c = CHR 0x0A then [backslash, CHR ''n'']
      else if c = CHR 0x0D then [backslash, CHR ''r'']
      else if c = CHR 0x09 then [backslash, CHR ''t'']
      else if (of_char c :: int) < 32
        then [backslash, CHR ''u'', CHR ''0'', CHR ''0'',
              hex_char (of_char c div 16), hex_char (of_char c mod 16)]
      else [c])"

definition quote_string :: "string \<Rightarrow> string" where
  "quote_string s = quoted (concat (map escape_char s))"

fun json_stringify :: "int json \<Rightarrow> string" where
  "json_stringify JNull = ''null''"
| "json_stringify (JBool b) = (if b then ''true'' else ''false'')"
| "json_stringify (JNum n) = digits_of_int n"
| "json_stringify (JStr s) = quote_string s"
| "json_stringify (JArr vs) = ''['' @ join '','' (map json_stringify vs) @ '']''"
| "json_stringify (JObj ms) =
     ''{'' @ join '','' (map (\<lambda>(k, v). quote_string k @ '':'' @ json_stringify v) ms) @ ''}''"

subsection \<open>Tokens\<close>

datatype token =
    LeftBrace | RightBrace | LeftBracket | RightBracket | Colon | Comma
  | StringToken string | NumberToken int | TrueToken | FalseToken | NullToken

definition is_space :: "char \<Rightarrow> bool" where
  "is_space c = (c = CHR '' '' \<or> c = CHR 0x09 \<or> c = CHR 0x0A \<or> c = CHR 0x0D)"

definition unescape :: "char \<Rightarrow> char option" where
  "unescape c =
     (if c = double_quote then Some double_quote
      else if c = backslash then Some backslash
      else if c = CHR ''/'' then Some CHR ''/''
      else if c = CHR ''b'' then Some (CHR 0x08)
      else if c = CHR ''f'' then Some (CHR 0x0C)
      else if c = CHR ''n'' then Some (CHR 0x0A)
      else if c = CHR ''r'' then Some (CHR 0x0D)
      else if c = CHR ''t'' then Some (CHR 0x09)
      else None)"

definition number_token :: "bool \<Rightarrow> string \<Rightarrow> token option" where
  "number_token negative ds =
     (if ds = [] \<or> (hd ds = CHR ''0'' \<and> ds \<noteq> ''0'') \<or> int_of_digits ds > 9007199254740991
      then None
      else Some (NumberToken (if negative then - int_of_digits ds else int_of_digits ds)))"

definition punctuation :: "char \<Rightarrow> token option" where
  "punctuation c =
     (if c = CHR ''{'' then Some LeftBrace
      else if c = CHR ''}'' then Some RightBrace
      else if c = CHR ''['' then Some LeftBracket
      else if c = CHR '']'' then Some RightBracket
      else if c = CHR '':'' then Some Colon
      else if c = CHR '','' then Some Comma
      else None)"

datatype lexing = Between | InString string | Escaping string | InNumber bool string

definition emit :: "token \<Rightarrow> token list option \<Rightarrow> token list option" where
  "emit t rest = map_option ((#) t) rest"

fun tokens :: "lexing \<Rightarrow> string \<Rightarrow> token list option" where
  "tokens Between [] = Some []"
| "tokens (InString s) [] = None"
| "tokens (Escaping s) [] = None"
| "tokens (InNumber negative ds) [] = map_option (\<lambda>n. [n]) (number_token negative ds)"
| "tokens Between (c # cs) =
     (if is_space c then tokens Between cs
      else if c = double_quote then tokens (InString []) cs
      else if c = CHR ''-'' then tokens (InNumber True []) cs
      else if is_digit c then tokens (InNumber False [c]) cs
      else if c = CHR ''t'' \<and> take 3 cs = ''rue'' then emit TrueToken (tokens Between (drop 3 cs))
      else if c = CHR ''f'' \<and> take 4 cs = ''alse'' then emit FalseToken (tokens Between (drop 4 cs))
      else if c = CHR ''n'' \<and> take 3 cs = ''ull'' then emit NullToken (tokens Between (drop 3 cs))
      else case punctuation c of None \<Rightarrow> None | Some t \<Rightarrow> emit t (tokens Between cs))"
| "tokens (InString s) (c # cs) =
     (if c = double_quote then emit (StringToken s) (tokens Between cs)
      else if c = backslash then tokens (Escaping s) cs
      else if (of_char c :: int) < 32 then None
      else tokens (InString (s @ [c])) cs)"
| "tokens (Escaping s) (c # cs) =
     (case unescape c of None \<Rightarrow> None | Some d \<Rightarrow> tokens (InString (s @ [d])) cs)"
| "tokens (InNumber negative ds) (c # cs) =
     (if is_digit c then tokens (InNumber negative (ds @ [c])) cs
      else case number_token negative ds of
             None \<Rightarrow> None
           | Some n \<Rightarrow>
               (if is_space c then emit n (tokens Between cs)
                else case punctuation c of
                       None \<Rightarrow> None
                     | Some t \<Rightarrow> emit n (emit t (tokens Between cs))))"

subsection \<open>Objects\<close>

definition is_array_index :: "string \<Rightarrow> bool" where
  "is_array_index k =
     (k \<noteq> [] \<and> list_all is_digit k \<and> (hd k = CHR ''0'' \<longrightarrow> k = ''0'')
      \<and> int_of_digits k < 4294967295)"

text \<open>Where a new key goes among the own keys of an object: array indices first, in
  ascending order, then the other keys in the order of their creation.\<close>

fun place_member :: "string \<Rightarrow> 'n json \<Rightarrow> (string \<times> 'n json) list \<Rightarrow> (string \<times> 'n json) list" where
  "place_member k v [] = [(k, v)]"
| "place_member k v ((k', v') # ms) =
     (if is_array_index k
         \<and> (\<not> is_array_index k' \<or> int_of_digits k < int_of_digits k')
      then (k, v) # (k', v') # ms
      else (k', v') # place_member k v ms)"

definition define_member :: "string \<Rightarrow> 'n json \<Rightarrow> (string \<times> 'n json) list \<Rightarrow> (string \<times> 'n json) list" where
  "define_member k v ms =
     (if k \<in> set (map fst ms) then map (\<lambda>(k', v'). if k' = k then (k', v) else (k', v')) ms
      else place_member k v ms)"

subsection \<open>parse\<close>

datatype expecting =
    AValue | AValueOrEnd | AKeyOrEnd | AKey | AColon | ACommaOrEnd

datatype 'n frame = ArrayFrame "'n json list" | ObjectFrame "(string \<times> 'n json) list" string

datatype 'n parsing = Parsing expecting "'n frame list" | Parsed "'n json"

fun finish_value :: "'n json \<Rightarrow> 'n frame list \<Rightarrow> 'n parsing" where
  "finish_value v [] = Parsed v"
| "finish_value v (ArrayFrame vs # outer) = Parsing ACommaOrEnd (ArrayFrame (vs @ [v]) # outer)"
| "finish_value v (ObjectFrame ms k # outer) =
     Parsing ACommaOrEnd (ObjectFrame (define_member k v ms) k # outer)"

fun scalar :: "token \<Rightarrow> int json option" where
  "scalar (StringToken s) = Some (JStr s)"
| "scalar (NumberToken n) = Some (JNum n)"
| "scalar TrueToken = Some (JBool True)"
| "scalar FalseToken = Some (JBool False)"
| "scalar NullToken = Some JNull"
| "scalar _ = None"

fun begin_value :: "token \<Rightarrow> int frame list \<Rightarrow> int parsing option" where
  "begin_value LeftBracket stack = Some (Parsing AValueOrEnd (ArrayFrame [] # stack))"
| "begin_value LeftBrace stack = Some (Parsing AKeyOrEnd (ObjectFrame [] [] # stack))"
| "begin_value t stack = map_option (\<lambda>v. finish_value v stack) (scalar t)"

fun end_array :: "int frame list \<Rightarrow> int parsing option" where
  "end_array (ArrayFrame vs # outer) = Some (finish_value (JArr vs) outer)"
| "end_array _ = None"

fun end_object :: "int frame list \<Rightarrow> int parsing option" where
  "end_object (ObjectFrame ms k # outer) = Some (finish_value (JObj ms) outer)"
| "end_object _ = None"

fun begin_member :: "token \<Rightarrow> int frame list \<Rightarrow> int parsing option" where
  "begin_member (StringToken s) (ObjectFrame ms k # outer) =
     Some (Parsing AColon (ObjectFrame ms s # outer))"
| "begin_member _ _ = None"

fun after_comma :: "int frame list \<Rightarrow> int parsing option" where
  "after_comma (ArrayFrame vs # outer) = Some (Parsing AValue (ArrayFrame vs # outer))"
| "after_comma (ObjectFrame ms k # outer) = Some (Parsing AKey (ObjectFrame ms k # outer))"
| "after_comma [] = None"

definition parse_step :: "int parsing \<Rightarrow> token \<Rightarrow> int parsing option" where
  "parse_step p t =
     (case p of
        Parsed v \<Rightarrow> None
      | Parsing e stack \<Rightarrow>
          (case e of
             AValue \<Rightarrow> begin_value t stack
           | AValueOrEnd \<Rightarrow> if t = RightBracket then end_array stack else begin_value t stack
           | AKeyOrEnd \<Rightarrow> if t = RightBrace then end_object stack else begin_member t stack
           | AKey \<Rightarrow> begin_member t stack
           | AColon \<Rightarrow> if t = Colon then Some (Parsing AValue stack) else None
           | ACommaOrEnd \<Rightarrow>
               if t = Comma then after_comma stack
               else if t = RightBracket then end_array stack
               else if t = RightBrace then end_object stack
               else None))"

fun parse_tokens :: "int parsing \<Rightarrow> token list \<Rightarrow> int json option" where
  "parse_tokens (Parsed v) [] = Some v"
| "parse_tokens (Parsing _ _) [] = None"
| "parse_tokens p (t # ts) =
     (case parse_step p t of None \<Rightarrow> None | Some p' \<Rightarrow> parse_tokens p' ts)"

definition json_parse :: "string \<Rightarrow> int json option" where
  "json_parse text =
     (case tokens Between text of None \<Rightarrow> None | Some ts \<Rightarrow> parse_tokens (Parsing AValue []) ts)"

section \<open>Collaborators for scenarios\<close>

text \<open>
  A completion API that answers from a script, one reply per call, and a tool server
  with the single tool \<open>add\<close>. Both reject with a message.
\<close>

type_synonym script = "(string + completion) list"

definition scripted_create ::
  "int request \<Rightarrow> script \<Rightarrow> (string + completion) \<times> script" where
  "scripted_create params replies =
     (case replies of [] \<Rightarrow> (Inl ''no reply'', []) | r # rs \<Rightarrow> (r, rs))"

definition text_content :: "string \<Rightarrow> int json" where
  "text_content s = JArr [JObj [(''type'', JStr ''text''), (''text'', JStr s)]]"

definition add_tool :: "string \<Rightarrow> int json \<Rightarrow> script \<Rightarrow> (string + int call_result) \<times> script" where
  "add_tool toolName arguments w =
     (if toolName \<noteq> ''add'' then (Inl ''Unknown tool'', w)
      else case arguments of
             JObj members \<Rightarrow>
               (case (map_of members ''a'', map_of members ''b'') of
                  (Some (JNum a), Some (JNum b)) \<Rightarrow>
                    (Inr \<lparr> result_content = Some (text_content (digits_of_int (a + b))) \<rparr>, w)
                | _ \<Rightarrow> (Inl ''Invalid arguments'', w))
           | _ \<Rightarrow> (Inl ''Invalid arguments'', w))"

definition scenario :: "int listed_tool list \<Rightarrow> (int, script, string) collaborators" where
  "scenario listing =
     \<lparr> JSON_parse = json_parse,
       JSON_stringify = json_stringify,
       completions_create = scripted_create,
       mcp_connect = (\<lambda>t w. w),
       mcp_listTools = (\<lambda>w. (Inr listing, w)),
       mcp_callTool = add_tool,
       platform = ''linux'',
       execPath = ''/usr/bin/node'' \<rparr>"

definition add_listing :: "int listed_tool list" where
  "add_listing =
     [\<lparr> listed_name = ''add'', listed_description = None,
        inputSchema =
          JObj [(''type'', JStr ''object''),
                (''properties'',
                   JObj [(''a'', JObj [(''type'', JStr ''number'')]),
                         (''b'', JObj [(''type'', JStr ''number'')])]),
                (''required'', JArr [JStr ''a'', JStr ''b''])] \<rparr>]"

definition fresh_client :: "script \<Rightarrow> (int, script) MCPClient" where
  "fresh_client replies = \<lparr> transport = None, tools = [], peers = replies \<rparr>"

definition says :: "string option \<Rightarrow> tool_call list option \<Rightarrow> string + completion" where
  "says c calls = Inr \<lparr> choices = [\<lparr> message = \<lparr> content = c, tool_calls = calls \<rparr> \<rparr>] \<rparr>"

definition add_2_3 :: string where
  "add_2_3 = ''{'' @ quoted ''a'' @ '':2,'' @ quoted ''b'' @ '':3}''"

text \<open>The scenario of the tool \<open>add\<close>: the model asks for \<open>add\<close> on 2 and 3, then
  answers with the sum.\<close>

definition add_call :: tool_call where
  "add_call = \<lparr> call_id = ''call_1'', call_name = ''add'', call_arguments = add_2_3 \<rparr>"

definition add_script :: script where
  "add_script = [says None (Some [add_call]), says (Some ''The sum is 5'') None]"

definition connected :: "int listed_tool list \<Rightarrow> script \<Rightarrow> (int, script) MCPClient" where
  "connected listing replies =
     fst (snd (connectToServer (scenario listing) ''server.py'' (fresh_client replies)))"

text \<open>A first reply whose list of tool calls is there and empty.\<close>

definition empty_batch_script :: script where
  "empty_batch_script = [says (Some ''hi'') (Some []), says (Some ''again'') None]"

text \<open>The scenario of a plain answer: no tool discovered, no tool call.\<close>

definition greeting_script :: script where
  "greeting_script = [says (Some ''hi'') None]"

text \<open>Tool calls that fail: a payload that is not JSON, and a tool the server does not
  have.\<close>

definition bad_call :: tool_call where
  "bad_call = \<lparr> call_id = ''call_2'', call_name = ''add'', call_arguments = ''{a:2, b:3}'' \<rparr>"

definition unknown_call :: tool_call where
  "unknown_call = \<lparr> call_id = ''call_0'', call_name = ''multiply'', call_arguments = add_2_3 \<rparr>"

definition bad_payload_script :: script where
  "bad_payload_script = [says None (Some [add_call, bad_call]), says (Some ''again'') None]"

definition unknown_tool_script :: script where
  "unknown_tool_script = [says None (Some [unknown_call, bad_call]), says (Some ''again'') None]"

section \<open>Lemmas about traces and the two loops\<close>

lemma completions_append: "completions (es @ fs) = completions es @ completions fs"
  by (induction es rule: completions.induct) simp_all

lemma invocations_append: "invocations (es @ fs) = invocations es @ invocations fs"
  by (induction es rule: invocations.induct) simp_all

lemma completions_map_Emit: "completions (map Emit ls) = []"
  by (induction ls) simp_all

lemma invocations_map_Emit: "invocations (map Emit ls) = []"
  by (induction ls) simp_all

lemma callTools_loop_completions:
  "callTools_loop rt toolCalls acc finalText this = (outcome, finalText', this', events)
     \<Longrightarrow> completions events = []"
  by (induction toolCalls arbitrary: acc finalText this outcome finalText' this' events)
     (auto split: option.splits prod.splits sum.splits)

lemma callTools_loop_client:
  "callTools_loop rt toolCalls acc finalText this = (outcome, finalText', this', events)
     \<Longrightarrow> transport this' = transport this \<and> tools this' = tools this"
  by (induction toolCalls arbitrary: acc finalText this outcome finalText' this' events)
     (fastforce split: option.splits prod.splits sum.splits)+

lemma callTools_loop_finalText:
  "callTools_loop rt toolCalls acc finalText this = (outcome, finalText', this', events)
     \<Longrightarrow> finalText' = finalText @ emitted events"
  by (induction toolCalls arbitrary: acc finalText this outcome finalText' this' events)
     (fastforce split: option.splits prod.splits sum.splits)+

lemma callTools_loop_served:
  "callTools_loop rt toolCalls acc finalText this = (Inr toolResults, finalText', this', events)
     \<Longrightarrow> served events = requested rt toolCalls"
  unfolding served_def requested_def
  by (induction toolCalls arbitrary: acc finalText this toolResults finalText' this' events)
     (fastforce split: option.splits prod.splits sum.splits)+

lemma callTools_loop_emitted:
  "callTools_loop rt toolCalls acc finalText this = (Inr toolResults, finalText', this', events)
     \<Longrightarrow> emitted events = map (\<lambda>(n, a). trace_line rt n a) (invocations events)"
  by (induction toolCalls arbitrary: acc finalText this toolResults finalText' this' events)
     (fastforce split: option.splits prod.splits sum.splits)+

lemma callTools_loop_ids:
  "callTools_loop rt toolCalls acc finalText this = (Inr toolResults, finalText', this', events)
     \<Longrightarrow> map toolCallId toolResults = map toolCallId acc @ map call_id toolCalls"
  by (induction toolCalls arbitrary: acc finalText this toolResults finalText' this' events)
     (fastforce split: option.splits prod.splits sum.splits)+

lemma callTools_loop_prefix:
  "callTools_loop rt toolCalls acc finalText this = (outcome, finalText', this', events)
     \<Longrightarrow> served events = take (length (invocations events)) (requested rt toolCalls)
         \<and> length (invocations events) \<le> length toolCalls"
  unfolding served_def requested_def
  by (induction toolCalls arbitrary: acc finalText this outcome finalText' this' events)
     (fastforce split: option.splits prod.splits sum.splits)+

lemma rejections_append: "rejections (es @ fs) = rejections es @ rejections fs"
  by (induction es rule: rejections.induct) simp_all

lemma rejections_map_Emit: "rejections (map Emit ls) = []"
  by (induction ls) simp_all

lemma callTools_loop_bad_payload:
  assumes "JSON_parse rt (call_arguments bad) = None"
      and "callTools_loop rt (before @ bad # after) acc finalText this
             = (outcome, finalText', this', events)"
  shows "length (invocations events) \<le> length before
         \<and> ((rejections events = [] \<and> outcome = Inl SyntaxError)
              \<or> (\<exists>x toolName arguments.
                    rejections events = [x]
                    \<and> outcome = Inl (CallToolRejected x)
                    \<and> events \<noteq> []
                    \<and> last events = Invocation toolName arguments (Inl x)))"
  using assms
proof (induction before arbitrary: acc finalText this outcome finalText' this' events)
  case Nil
  then show ?case by simp
next
  case (Cons toolCall before)
  show ?case
  proof (cases "JSON_parse rt (call_arguments toolCall)")
    case None
    with Cons.prems show ?thesis by simp
  next
    case (Some arguments)
    obtain reply w where
      call: "mcp_callTool rt (call_name toolCall) arguments (peers this) = (reply, w)"
      by (cases "mcp_callTool rt (call_name toolCall) arguments (peers this)")
    show ?thesis
    proof (cases reply)
      case (Inl x)
      with Cons.prems Some call show ?thesis by auto
    next
      case (Inr toolResult)
      obtain o2 ft2 this2 ev2 where
        rec: "callTools_loop rt (before @ bad # after)
                (acc @ [\<lparr> toolCallId = call_id toolCall, result = toolResult \<rparr>])
                (finalText @ [trace_line rt (call_name toolCall) arguments])
                (this \<lparr> peers := w \<rparr>) = (o2, ft2, this2, ev2)"
        by (cases "callTools_loop rt (before @ bad # after)
                (acc @ [\<lparr> toolCallId = call_id toolCall, result = toolResult \<rparr>])
                (finalText @ [trace_line rt (call_name toolCall) arguments])
                (this \<lparr> peers := w \<rparr>)")
      from Cons.prems Some call Inr rec have
        res: "outcome = o2"
             "events = [Console (calling rt (call_name toolCall) arguments),
                        Invocation (call_name toolCall) arguments (Inr toolResult),
                        Emit (trace_line rt (call_name toolCall) arguments)] @ ev2"
        by simp_all
      from Cons.IH [OF Cons.prems(1) rec] res show ?thesis
        by auto
    qed
  qed
qed

lemma callTools_loop_blocks:
  assumes "callTools_loop rt toolCalls acc finalText this = (outcome, finalText', this', events)"
  shows "\<exists>answered rest.
           events = concat (map (block rt) answered) @ rest
           \<and> finalText' = finalText @ map (\<lambda>(n, a, r). trace_line rt n a) answered
           \<and> (case outcome of
                 Inr toolResults \<Rightarrow> rest = [] \<and> length answered = length toolCalls
               | Inl SyntaxError \<Rightarrow> rest = []
               | Inl (CallToolRejected x) \<Rightarrow>
                   (\<exists>n a. rest = [Console (calling rt n a), Invocation n a (Inl x)])
               | Inl _ \<Rightarrow> False)"
  using assms
proof (induction toolCalls arbitrary: acc finalText this outcome finalText' this' events)
  case Nil
  then show ?case by (auto intro: exI [of _ "[]"])
next
  case (Cons toolCall rest)
  show ?case
  proof (cases "JSON_parse rt (call_arguments toolCall)")
    case None
    with Cons.prems show ?thesis by (auto intro: exI [of _ "[]"])
  next
    case (Some arguments)
    obtain reply w where call: "mcp_callTool rt (call_name toolCall) arguments (peers this) = (reply, w)"
      by (cases "mcp_callTool rt (call_name toolCall) arguments (peers this)")
    show ?thesis
    proof (cases reply)
      case (Inl x)
      with Cons.prems Some call show ?thesis by (auto intro: exI [of _ "[]"])
    next
      case (Inr toolResult)
      let ?acc = "acc @ [\<lparr> toolCallId = call_id toolCall, result = toolResult \<rparr>]"
      let ?ft = "finalText @ [trace_line rt (call_name toolCall) arguments]"
      obtain o2 ft2 this2 ev2 where
        rec: "callTools_loop rt rest ?acc ?ft (this \<lparr> peers := w \<rparr>) = (o2, ft2, this2, ev2)"
        by (cases "callTools_loop rt rest ?acc ?ft (this \<lparr> peers := w \<rparr>)")
      from Cons.IH [OF rec] obtain answered tl where
        ih: "ev2 = concat (map (block rt) answered) @ tl"
            "ft2 = ?ft @ map (\<lambda>(n, a, r). trace_line rt n a) answered"
            "(case o2 of
                 Inr toolResults \<Rightarrow> tl = [] \<and> length answered = length rest
               | Inl SyntaxError \<Rightarrow> tl = []
               | Inl (CallToolRejected x) \<Rightarrow>
                   (\<exists>n a. tl = [Console (calling rt n a), Invocation n a (Inl x)])
               | Inl _ \<Rightarrow> False)"
        by blast
      from Cons.prems Some call Inr rec have
        res: "outcome = o2" "finalText' = ft2" "this' = this2"
             "events = block rt (call_name toolCall, arguments, toolResult) @ ev2"
        by (auto simp: block_def)
      show ?thesis
        apply (rule exI [of _ "(call_name toolCall, arguments, toolResult) # answered"])
        apply (rule exI [of _ tl])
        using ih res by (auto split: sum.splits failure.splits)
    qed
  qed
qed

lemma processQuery_cases [consumes 1, case_names rejected no_choice plain tools_failed rejected_again no_final_choice answered]:
  assumes run: "processQuery rt query this = (outcome, this', events)"
  obtains
    x w where
      "completions_create rt (create_params this [UserMessage query]) (peers this) = (Inl x, w)"
      "outcome = Inl (CompletionRejected x)" "this' = this \<lparr> peers := w \<rparr>"
      "events = [Completion (create_params this [UserMessage query]) (Inl x)]"
  | response w where
      "completions_create rt (create_params this [UserMessage query]) (peers this) = (Inr response, w)"
      "choices response = []"
      "outcome = Inl TypeError" "this' = this \<lparr> peers := w \<rparr>"
      "events = [Completion (create_params this [UserMessage query]) (Inr response)]"
  | response w choice others where
      "completions_create rt (create_params this [UserMessage query]) (peers this) = (Inr response, w)"
      "choices response = choice # others"
      "tool_calls (message choice) = None"
      "outcome = Inr (join ''\<newline>'' (pushed (content (message choice))))"
      "this' = this \<lparr> peers := w \<rparr>"
      "events = Completion (create_params this [UserMessage query]) (Inr response)
                  # map Emit (pushed (content (message choice)))"
  | response w choice others toolCalls e finalText2 tool_events where
      "completions_create rt (create_params this [UserMessage query]) (peers this) = (Inr response, w)"
      "choices response = choice # others"
      "tool_calls (message choice) = Some toolCalls"
      "callTools rt toolCalls (pushed (content (message choice))) (this \<lparr> peers := w \<rparr>)
         = (Inl e, finalText2, this', tool_events)"
      "outcome = Inl e"
      "events = Completion (create_params this [UserMessage query]) (Inr response)
                  # map Emit (pushed (content (message choice))) @ tool_events"
  | response w choice others toolCalls toolResults finalText2 this2 tool_events x w2 where
      "completions_create rt (create_params this [UserMessage query]) (peers this) = (Inr response, w)"
      "choices response = choice # others"
      "tool_calls (message choice) = Some toolCalls"
      "callTools rt toolCalls (pushed (content (message choice))) (this \<lparr> peers := w \<rparr>)
         = (Inr toolResults, finalText2, this2, tool_events)"
      "completions_create rt
         (create_params this2
            ([UserMessage query]
               @ [AssistantMessage (string_or (content (message choice)) []) toolCalls]
               @ map (tool_message rt) toolResults))
         (peers this2) = (Inl x, w2)"
      "outcome = Inl (CompletionRejected x)" "this' = this2 \<lparr> peers := w2 \<rparr>"
      "events = Completion (create_params this [UserMessage query]) (Inr response)
                  # map Emit (pushed (content (message choice))) @ tool_events
                  @ [Completion
                       (create_params this2
                          ([UserMessage query]
                             @ [AssistantMessage (string_or (content (message choice)) []) toolCalls]
                             @ map (tool_message rt) toolResults))
                       (Inl x)]"
  | response w choice others toolCalls toolResults finalText2 this2 tool_events response2 w2 where
      "completions_create rt (create_params this [UserMessage query]) (peers this) = (Inr response, w)"
      "choices response = choice # others"
      "tool_calls (message choice) = Some toolCalls"
      "callTools rt toolCalls (pushed (content (message choice))) (this \<lparr> peers := w \<rparr>)
         = (Inr toolResults, finalText2, this2, tool_events)"
      "completions_create rt
         (create_params this2
            ([UserMessage query]
               @ [AssistantMessage (string_or (content (message choice)) []) toolCalls]
               @ map (tool_message rt) toolResults))
         (peers this2) = (Inr response2, w2)"
      "choices response2 = []"
      "outcome = Inl TypeError" "this' = this2 \<lparr> peers := w2 \<rparr>"
      "events = Completion (create_params this [UserMessage query]) (Inr response)
                  # map Emit (pushed (content (message choice))) @ tool_events
                  @ [Completion
                       (create_params this2
                          ([UserMessage query]
                             @ [AssistantMessage (string_or (content (message choice)) []) toolCalls]
                             @ map (tool_message rt) toolResults))
                       (Inr response2)]"
  | response w choice others toolCalls toolResults finalText2 this2 tool_events response2 w2
      finalChoice others2 where
      "completions_create rt (create_params this [UserMessage query]) (peers this) = (Inr response, w)"
      "choices response = choice # others"
      "tool_calls (message choice) = Some toolCalls"
      "callTools rt toolCalls (pushed (content (message choice))) (this \<lparr> peers := w \<rparr>)
         = (Inr toolResults, finalText2, this2, tool_events)"
      "completions_create rt
         (create_params this2
            ([UserMessage query]
               @ [AssistantMessage (string_or (content (message choice)) []) toolCalls]
               @ map (tool_message rt) toolResults))
         (peers this2) = (Inr response2, w2)"
      "choices response2 = finalChoice # others2"
      "outcome = Inr (join ''\<newline>'' (finalText2 @ pushed (content (message finalChoice))))"
      "this' = this2 \<lparr> peers := w2 \<rparr>"
      "events = Completion (create_params this [UserMessage query]) (Inr response)
                  # map Emit (pushed (content (message choice))) @ tool_events
                  @ Completion
                       (create_params this2
                          ([UserMessage query]
                             @ [AssistantMessage (string_or (content (message choice)) []) toolCalls]
                             @ map (tool_message rt) toolResults))
                       (Inr response2)
                    # map Emit (pushed (content (message finalChoice)))"
  using run unfolding processQuery_def Let_def
  by (auto split: prod.splits sum.splits list.splits option.splits)


lemma callTools_completions:
  "callTools rt toolCalls finalText this = (outcome, finalText', this', events)
     \<Longrightarrow> completions events = []"
  unfolding callTools_def by (rule callTools_loop_completions)

lemma callTools_client:
  "callTools rt toolCalls finalText this = (outcome, finalText', this', events)
     \<Longrightarrow> transport this' = transport this \<and> tools this' = tools this"
  unfolding callTools_def by (rule callTools_loop_client)

lemma callTools_served:
  "callTools rt toolCalls finalText this = (Inr toolResults, finalText', this', events)
     \<Longrightarrow> served events = requested rt toolCalls"
  unfolding callTools_def by (rule callTools_loop_served)

lemma callTools_finalText:
  "callTools rt toolCalls finalText this = (Inr toolResults, finalText', this', events)
     \<Longrightarrow> finalText' = finalText @ map (\<lambda>(n, a). trace_line rt n a) (invocations events)"
  unfolding callTools_def
  using callTools_loop_finalText callTools_loop_emitted by metis

lemma callTools_ids:
  "callTools rt toolCalls finalText this = (Inr toolResults, finalText', this', events)
     \<Longrightarrow> map toolCallId toolResults = map call_id toolCalls"
  unfolding callTools_def using callTools_loop_ids by fastforce

lemma served_append: "served (es @ fs) = served es @ served fs"
  by (simp add: served_def invocations_append)

lemma served_map_Emit: "served (map Emit ls) = []"
  by (simp add: served_def invocations_map_Emit)

lemma served_Completion: "served (Completion p r # es) = served es"
  by (simp add: served_def)

lemma trace_lines_served:
  "map (\<lambda>(n, a). (n, Some a)) given = requested rt toolCalls
     \<Longrightarrow> map (\<lambda>(n, a). trace_line rt n a) given = trace_lines rt toolCalls
         \<and> length (trace_lines rt toolCalls) = length toolCalls"
  by (induction toolCalls arbitrary: given)
     (auto simp: requested_def trace_lines_def split: option.splits)

lemma callTools_trace_lines:
  assumes "callTools rt toolCalls finalText this = (Inr toolResults, finalText', this', events)"
  shows "finalText' = finalText @ trace_lines rt toolCalls"
    and "length (trace_lines rt toolCalls) = length toolCalls"
  using callTools_finalText [OF assms] callTools_served [OF assms] trace_lines_served
  by (metis served_def)+

section \<open>Properties of the schema adapter\<close>

lemma get_property_object: "get_property (JObj members) key = Inr (map_of members key)"
  by (simp add: get_property_def)

text \<open>
  Claim C3. A tool descriptor carries an object as its input schema. On every such
  descriptor the adapter returns a tool spec (it never throws); the spec has the
  description \<open>Tool: <name>\<close> when the descriptor has none, an empty object as
  properties when the schema has no \<open>properties\<close> member, and an empty list as required
  when it has no \<open>required\<close> member. Being a function of the descriptor alone, it is
  deterministic.
\<close>

theorem openAiToolAdapter_total:
  assumes "input_schema tool = JObj members"
  shows "\<exists>spec. (openAiToolAdapter tool :: 'x failure + ('n::zero) openai_tool) = Inr spec
           \<and> tool_type spec = ''function''
           \<and> function_name (tool_function spec) = name tool
           \<and> parameters_type (function_parameters (tool_function spec)) = ''object''
           \<and> (description tool = None \<longrightarrow>
                function_description (tool_function spec) = ''Tool: '' @ name tool)
           \<and> (map_of members ''properties'' = None \<longrightarrow>
                properties (function_parameters (tool_function spec)) = JObj [])
           \<and> (map_of members ''required'' = None \<longrightarrow>
                required (function_parameters (tool_function spec)) = JArr [])"
  using assms
  by (simp add: openAiToolAdapter_def get_property_object string_or_def json_or_def)

theorem openAiToolAdapter_total_witness:
  "\<exists>spec. (openAiToolAdapter \<lparr> name = ''add'', description = None,
                                input_schema = (JObj [] :: int json) \<rparr>
             :: unit failure + int openai_tool) = Inr spec
         \<and> function_description (tool_function spec) = ''Tool: add''
         \<and> properties (function_parameters (tool_function spec)) = JObj []
         \<and> required (function_parameters (tool_function spec)) = JArr []"
  using openAiToolAdapter_total
    [where ?'x = unit
       and tool = "\<lparr> name = ''add'', description = None, input_schema = (JObj [] :: int json) \<rparr>"
       and members = "[]"]
  by auto

section \<open>Runs of the scenarios\<close>



lemma add_run_outcome:
  "fst (processQuery (scenario add_listing) ''add 2 and 3'' (connected add_listing add_script))
   = Inr (''[Calling tool add with args '' @ add_2_3 @ '']'' @ ''\<newline>'' @ ''The sum is 5'')"
  by code_simp

lemma add_run_replies:
  "map snd (completions (snd (snd (processQuery (scenario add_listing) ''add 2 and 3''
              (connected add_listing add_script)))))
   = [says None (Some [add_call]), says (Some ''The sum is 5'') None]"
  by code_simp

section \<open>Properties of processQuery\<close>




text \<open>
  Claim C2. The answer of a run that returns one is the newline-join of the content of
  the first reply (if any), one trace line per tool call in the order of the batch, and
  the content of the second reply (if any); the two replies are the ones on the trace.
\<close>

theorem processQuery_answer:
  assumes "processQuery rt query this = (Inr text, this', events)"
  shows "\<exists>response choice others.
           choices response = choice # others
           \<and> (case tool_calls (message choice) of
                 None \<Rightarrow>
                   map snd (completions events) = [Inr response]
                   \<and> text = answer_text rt (message choice) None
               | Some toolCalls \<Rightarrow>
                   (\<exists>response2 finalChoice others2.
                      map snd (completions events) = [Inr response, Inr response2]
                      \<and> choices response2 = finalChoice # others2
                      \<and> length (trace_lines rt toolCalls) = length toolCalls
                      \<and> text = answer_text rt (message choice) (Some (message finalChoice))))"
  using assms
proof (cases rule: processQuery_cases)
  case (plain response w choice others)
  then show ?thesis
    by (intro exI [of _ response] exI [of _ choice] exI [of _ others])
       (simp add: answer_text_def completions_map_Emit)
next
  case (answered response w choice others toolCalls toolResults finalText2 this2 tool_events
      response2 w2 finalChoice others2)
  note lines = callTools_trace_lines [OF answered(4)]
  have "map snd (completions events) = [Inr response, Inr response2]"
    using answered callTools_completions [OF answered(4)]
    by (simp add: completions_append completions_map_Emit)
  moreover have "text = answer_text rt (message choice) (Some (message finalChoice))"
    using answered lines by (simp add: answer_text_def)
  ultimately show ?thesis
    using answered(2,3,6) lines(2)
    by (intro exI [of _ response] exI [of _ choice] exI [of _ others]) auto
qed simp_all

text \<open>The scenario of \<open>add\<close>: no content in the first reply, one call of \<open>add\<close> on
  2 and 3, then the content \<open>The sum is 5\<close>.\<close>

theorem processQuery_answer_witness:
  "fst (processQuery (scenario add_listing) ''add 2 and 3'' (connected add_listing add_script))
     = Inr (''[Calling tool add with args {'' @ quoted ''a'' @ '':2,'' @ quoted ''b'' @ '':3}]''
            @ ''\<newline>'' @ ''The sum is 5'')
   \<and> answer_text (scenario add_listing)
        \<lparr> content = None, tool_calls = Some [add_call] \<rparr>
        (Some \<lparr> content = Some ''The sum is 5'', tool_calls = None \<rparr>)
     = ''[Calling tool add with args {'' @ quoted ''a'' @ '':2,'' @ quoted ''b'' @ '':3}]''
            @ ''\<newline>'' @ ''The sum is 5''"
proof -
  let ?run = "processQuery (scenario add_listing) ''add 2 and 3'' (connected add_listing add_script)"
  let ?text = "''[Calling tool add with args '' @ add_2_3 @ '']'' @ ''\<newline>'' @ ''The sum is 5''"
  have run: "?run = (Inr ?text, fst (snd ?run), snd (snd ?run))"
    using add_run_outcome by (metis prod.collapse)
  from processQuery_answer [OF run] add_run_replies
  have "?text = answer_text (scenario add_listing)
        \<lparr> content = None, tool_calls = Some [add_call] \<rparr>
        (Some \<lparr> content = Some ''The sum is 5'', tool_calls = None \<rparr>)"
    by (auto simp: says_def split: option.splits)
  with add_run_outcome show ?thesis
    by (simp add: add_2_3_def)
qed

section \<open>The tools field of a request\<close>

lemma adapt_each_length: "adapt_each ts = Inr specs \<Longrightarrow> length specs = length ts"
  by (induction ts arbitrary: specs) (auto split: sum.splits)

lemma connectToServer_tools:
  fixes rt :: "('n::zero, 'w, 'x) collaborators"
  assumes "connectToServer rt path this0 = (Inr u, this1, events0)"
  shows "\<exists>listed. Discovery (Inr listed) \<in> set events0
           \<and> (adapt_each (map as_tool listed) :: 'x failure + 'n openai_tool list)
               = Inr (tools this1)"
  using assms unfolding connectToServer_def Let_def
  by (auto split: if_splits prod.splits sum.splits)

lemma processQuery_request_tools:
  assumes "processQuery rt query this = (outcome, this', events)"
  shows "\<forall>(params, reply) \<in> set (completions events).
           request_tools params = (if tools this = [] then None else Some (tools this))"
  using assms
proof (cases rule: processQuery_cases)
  case (tools_failed response w choice others toolCalls e finalText2 tool_events)
  then show ?thesis
    using callTools_completions [OF tools_failed(4)]
    by (simp add: completions_append completions_map_Emit create_params_def)
next
  case (rejected_again response w choice others toolCalls toolResults finalText2 this2 tool_events x w2)
  then show ?thesis
    using callTools_completions [OF rejected_again(4)] callTools_client [OF rejected_again(4)]
    by (simp add: completions_append completions_map_Emit create_params_def)
next
  case (no_final_choice response w choice others toolCalls toolResults finalText2 this2 tool_events response2 w2)
  then show ?thesis
    using callTools_completions [OF no_final_choice(4)] callTools_client [OF no_final_choice(4)]
    by (simp add: completions_append completions_map_Emit create_params_def)
next
  case (answered response w choice others toolCalls toolResults finalText2 this2 tool_events
      response2 w2 finalChoice others2)
  then show ?thesis
    using callTools_completions [OF answered(4)] callTools_client [OF answered(4)]
    by (simp add: completions_append completions_map_Emit create_params_def)
qed (simp_all add: completions_map_Emit create_params_def)

text \<open>
  Claim C4. Take a session whose connection succeeded, and any later state of its
  client with the tool specs that the connection stored. Every request that processQuery
  sends to the completion API, in the first round and in the second, has no tools field
  when discovery listed no tool, and has the list of the adapted specs, one per listed
  tool, when it listed some.
\<close>

theorem processQuery_tools_field:
  fixes rt :: "('n::zero, 'w, 'x) collaborators"
  assumes "connectToServer rt path this0 = (Inr u, this1, events0)"
      and "tools this = tools this1"
      and "processQuery rt query this = (outcome, this', events)"
  shows "\<exists>listed specs.
           Discovery (Inr listed) \<in> set events0
           \<and> (adapt_each (map as_tool listed) :: 'x failure + 'n openai_tool list) = Inr specs
           \<and> length specs = length listed
           \<and> (\<forall>(params, reply) \<in> set (completions events).
                 request_tools params = (if listed = [] then None else Some specs))"
proof -
  from connectToServer_tools [OF assms(1)] obtain listed where
    listed: "Discovery (Inr listed) \<in> set events0"
            "(adapt_each (map as_tool listed) :: 'x failure + 'n openai_tool list)
               = Inr (tools this1)"
    by blast
  from adapt_each_length [OF listed(2)] have len: "length (tools this1) = length listed"
    by simp
  then have "tools this1 = [] \<longleftrightarrow> listed = []"
    by (metis length_0_conv)
  with processQuery_request_tools [OF assms(3)] assms(2) listed len show ?thesis
    by (intro exI [of _ listed] exI [of _ "tools this1"]) auto
qed


lemma connected_run:
  "connectToServer (scenario listing) ''server.py'' (fresh_client replies)
   = (fst (connectToServer (scenario listing) ''server.py'' (fresh_client replies)),
      connected listing replies,
      snd (snd (connectToServer (scenario listing) ''server.py'' (fresh_client replies))))"
  by (simp add: connected_def)

lemma connected_add_ok:
  "fst (connectToServer (scenario add_listing) ''server.py'' (fresh_client add_script)) = Inr ()"
  by code_simp

lemma connected_none_ok:
  "fst (connectToServer (scenario []) ''server.py'' (fresh_client greeting_script)) = Inr ()"
  by code_simp

lemma greeting_run_requests:
  "map (request_tools \<circ> fst)
     (completions (snd (snd (processQuery (scenario []) ''hello''
        (connected [] greeting_script))))) = [None]"
  by code_simp

lemma add_run_requests:
  "map (request_tools \<circ> fst) (completions (snd (snd (processQuery (scenario add_listing) ''add 2 and 3''
              (connected add_listing add_script)))))
   = [Some (tools (connected add_listing add_script)), Some (tools (connected add_listing add_script))]"
  by code_simp

text \<open>A session with no tool and a session with the tool \<open>add\<close>.\<close>

theorem processQuery_tools_field_witness:
  "map (request_tools \<circ> fst)
     (completions (snd (snd (processQuery (scenario []) ''hello''
        (connected [] greeting_script))))) = [None]
   \<and> map (request_tools \<circ> fst)
     (completions (snd (snd (processQuery (scenario add_listing) ''add 2 and 3''
        (connected add_listing add_script)))))
     = [Some (tools (connected add_listing add_script)),
        Some (tools (connected add_listing add_script))]
   \<and> length (tools (connected add_listing add_script)) = 1"
proof -
  let ?none = "processQuery (scenario []) ''hello'' (connected [] greeting_script)"
  let ?one = "processQuery (scenario add_listing) ''add 2 and 3'' (connected add_listing add_script)"
  have none: "?none = (fst ?none, fst (snd ?none), snd (snd ?none))"
    by simp
  have one: "?one = (fst ?one, fst (snd ?one), snd (snd ?one))"
    by simp
  have c0: "connectToServer (scenario []) ''server.py'' (fresh_client greeting_script)
              = (Inr (), connected [] greeting_script,
                 snd (snd (connectToServer (scenario []) ''server.py'' (fresh_client greeting_script))))"
    using connected_run [of "[]" greeting_script] connected_none_ok by simp
  have c1: "connectToServer (scenario add_listing) ''server.py'' (fresh_client add_script)
              = (Inr (), connected add_listing add_script,
                 snd (snd (connectToServer (scenario add_listing) ''server.py'' (fresh_client add_script))))"
    using connected_run [of add_listing add_script] connected_add_ok by simp
  have d0: "snd (snd (connectToServer (scenario []) ''server.py'' (fresh_client greeting_script)))
              = [Connect \<lparr> command = ''python3'', args = [''server.py''] \<rparr>, Discovery (Inr []),
                 ConsoleTools []]"
    by code_simp
  have d1: "snd (snd (connectToServer (scenario add_listing) ''server.py'' (fresh_client add_script)))
              = [Connect \<lparr> command = ''python3'', args = [''server.py''] \<rparr>,
                 Discovery (Inr add_listing), ConsoleTools [''add'']]"
    by code_simp
  from processQuery_tools_field [OF c0 refl none] d0
  have "\<forall>(params, reply) \<in> set (completions (snd (snd ?none))). request_tools params = None"
    by auto
  moreover from processQuery_tools_field [OF c1 refl one] d1
  have "\<exists>specs. length specs = 1
          \<and> (\<forall>(params, reply) \<in> set (completions (snd (snd ?one))). request_tools params = Some specs)"
    by (auto simp: add_listing_def)
  ultimately show ?thesis
    using add_run_requests greeting_run_requests by auto
qed

section \<open>Batches that fail\<close>

lemma requested_append: "requested rt (xs @ ys) = requested rt xs @ requested rt ys"
  by (simp add: requested_def)

lemma callTools_bad_payload:
  assumes "JSON_parse rt (call_arguments bad) = None"
      and "callTools rt (before @ bad # after) finalText this = (outcome, finalText', this', events)"
  shows "length (invocations events) \<le> length before"
    and "served events = take (length (invocations events)) (requested rt before)"
    and "(rejections events = [] \<and> outcome = Inl SyntaxError)
           \<or> (\<exists>x toolName arguments.
                 rejections events = [x]
                 \<and> outcome = Inl (CallToolRejected x)
                 \<and> events \<noteq> []
                 \<and> last events = Invocation toolName arguments (Inl x))"
proof -
  from assms have loop: "callTools_loop rt (before @ bad # after) [] finalText this
                           = (outcome, finalText', this', events)"
    by (simp add: callTools_def)
  from callTools_loop_bad_payload [OF assms(1) loop]
  show few: "length (invocations events) \<le> length before"
    and "(rejections events = [] \<and> outcome = Inl SyntaxError)
           \<or> (\<exists>x toolName arguments.
                 rejections events = [x]
                 \<and> outcome = Inl (CallToolRejected x)
                 \<and> events \<noteq> []
                 \<and> last events = Invocation toolName arguments (Inl x))"
    by blast+
  from callTools_loop_prefix [OF loop] few
  show "served events = take (length (invocations events)) (requested rt before)"
    by (simp add: requested_append requested_def)
qed

text \<open>
  Claim C5, as amended. Let the first reply carry a batch of tool calls in which some
  call has a payload that is not JSON. Then processQuery fails. When the tool server
  rejected no call of the run, it fails with the parse error. Otherwise the server
  rejected exactly one call, that rejection is the last thing the run did, and
  processQuery fails with it. In every case the tool server is given only calls that
  stand before the bad one, in the order of the batch, so a rejected call is an earlier
  one, and the bad call and the calls after it are never invoked. The completion API is
  called once: there is no second round.
\<close>

theorem processQuery_bad_payload:
  assumes "completions_create rt (create_params this [UserMessage query]) (peers this)
             = (Inr response, w)"
      and "choices response = choice # others"
      and "tool_calls (message choice) = Some (before @ bad # after)"
      and "JSON_parse rt (call_arguments bad) = None"
      and "processQuery rt query this = (outcome, this', events)"
  shows "((rejections events = [] \<and> outcome = Inl SyntaxError)
          \<or> (\<exists>x toolName arguments.
                rejections events = [x]
                \<and> outcome = Inl (CallToolRejected x)
                \<and> last events = Invocation toolName arguments (Inl x)))
         \<and> length (invocations events) \<le> length before
         \<and> served events = take (length (invocations events)) (requested rt before)
         \<and> length (completions events) = 1"
  using assms(5)
proof (cases rule: processQuery_cases)
  case (tools_failed response' w' choice' others' toolCalls e finalText2 tool_events)
  with assms(1-3) have batch: "toolCalls = before @ bad # after" and same: "choice' = choice"
    by simp_all
  note bad = callTools_bad_payload [OF assms(4) tools_failed(4) [unfolded batch]]
  have "rejections events = rejections tool_events"
    using tools_failed(6) by (simp add: rejections_append rejections_map_Emit)
  moreover have "tool_events \<noteq> [] \<Longrightarrow> last events = last tool_events"
    using tools_failed(6) by simp
  moreover have "length (invocations events) = length (invocations tool_events)"
    "served events = served tool_events" "length (completions events) = 1"
    using tools_failed(6) callTools_completions [OF tools_failed(4)]
    by (simp_all add: completions_append completions_map_Emit served_append served_map_Emit
        served_Completion invocations_append invocations_map_Emit)
  ultimately show ?thesis
    using tools_failed(5) bad by auto
next
  case (rejected_again response' w' choice' others' toolCalls toolResults finalText2 this2 tool_events x w2)
  with assms(1-3) have batch: "toolCalls = before @ bad # after"
    by simp
  from callTools_bad_payload(3) [OF assms(4) rejected_again(4) [unfolded batch]] show ?thesis
    by simp
next
  case (no_final_choice response' w' choice' others' toolCalls toolResults finalText2 this2 tool_events response2 w2)
  with assms(1-3) have batch: "toolCalls = before @ bad # after"
    by simp
  from callTools_bad_payload(3) [OF assms(4) no_final_choice(4) [unfolded batch]] show ?thesis
    by simp
next
  case (answered response' w' choice' others' toolCalls toolResults finalText2 this2 tool_events
      response2 w2 finalChoice others2)
  with assms(1-3) have batch: "toolCalls = before @ bad # after"
    by simp
  from callTools_bad_payload(3) [OF assms(4) answered(4) [unfolded batch]] show ?thesis
    by simp
qed (use assms(1-3) in auto)

lemma bad_payload_first:
  "completions_create (scenario add_listing)
     (create_params (connected add_listing bad_payload_script) [UserMessage ''add twice''])
     (peers (connected add_listing bad_payload_script))
   = (Inr \<lparr> choices = [\<lparr> message = \<lparr> content = None,
                                        tool_calls = Some ([add_call] @ bad_call # []) \<rparr> \<rparr>] \<rparr>,
      [says (Some ''again'') None])"
  by code_simp

lemma unknown_tool_first:
  "completions_create (scenario add_listing)
     (create_params (connected add_listing unknown_tool_script) [UserMessage ''multiply, then add''])
     (peers (connected add_listing unknown_tool_script))
   = (Inr \<lparr> choices = [\<lparr> message = \<lparr> content = None,
                                        tool_calls = Some ([unknown_call] @ bad_call # []) \<rparr> \<rparr>] \<rparr>,
      [says (Some ''again'') None])"
  by code_simp

lemma bad_call_payload: "JSON_parse (scenario add_listing) (call_arguments bad_call) = None"
  by code_simp

lemma bad_payload_outcome:
  "fst (processQuery (scenario add_listing) ''add twice''
          (connected add_listing bad_payload_script)) = Inl SyntaxError"
  by code_simp

lemma bad_payload_invocations:
  "invocations (snd (snd (processQuery (scenario add_listing) ''add twice''
          (connected add_listing bad_payload_script))))
   = [(''add'', JObj [(''a'', JNum 2), (''b'', JNum 3)])]"
  by code_simp

lemma bad_payload_rejections:
  "rejections (snd (snd (processQuery (scenario add_listing) ''add twice''
          (connected add_listing bad_payload_script)))) = []"
  by code_simp

lemma unknown_tool_rejections:
  "rejections (snd (snd (processQuery (scenario add_listing) ''multiply, then add''
          (connected add_listing unknown_tool_script)))) = [''Unknown tool'']"
  by code_simp

text \<open>
  Two batches. In the first, \<open>add\<close> on 2 and 3 is answered, then comes a call whose
  payload has unquoted keys: the parse error. In the second, \<open>multiply\<close> is rejected
  before the same bad call is reached: the rejection.
\<close>

theorem processQuery_bad_payload_witness:
  "JSON_parse (scenario add_listing) (call_arguments bad_call) = None
   \<and> rejections (snd (snd (processQuery (scenario add_listing) ''add twice''
            (connected add_listing bad_payload_script)))) = []
   \<and> fst (processQuery (scenario add_listing) ''add twice''
            (connected add_listing bad_payload_script)) = Inl SyntaxError
   \<and> invocations (snd (snd (processQuery (scenario add_listing) ''add twice''
            (connected add_listing bad_payload_script))))
       = [(''add'', JObj [(''a'', JNum 2), (''b'', JNum 3)])]
   \<and> length (completions (snd (snd (processQuery (scenario add_listing) ''add twice''
            (connected add_listing bad_payload_script))))) = 1
   \<and> rejections (snd (snd (processQuery (scenario add_listing) ''multiply, then add''
            (connected add_listing unknown_tool_script)))) = [''Unknown tool'']
   \<and> fst (processQuery (scenario add_listing) ''multiply, then add''
            (connected add_listing unknown_tool_script)) = Inl (CallToolRejected ''Unknown tool'')
   \<and> length (completions (snd (snd (processQuery (scenario add_listing) ''multiply, then add''
            (connected add_listing unknown_tool_script))))) = 1"
proof -
  let ?run = "processQuery (scenario add_listing) ''add twice''
                (connected add_listing bad_payload_script)"
  let ?other = "processQuery (scenario add_listing) ''multiply, then add''
                (connected add_listing unknown_tool_script)"
  have run: "?run = (fst ?run, fst (snd ?run), snd (snd ?run))"
    by simp
  have other: "?other = (fst ?other, fst (snd ?other), snd (snd ?other))"
    by simp
  have choice: "choices \<lparr> choices = [\<lparr> message = \<lparr> content = None,
                     tool_calls = Some (calls @ bad_call # []) \<rparr> \<rparr>] \<rparr>
                  = \<lparr> message = \<lparr> content = None,
                     tool_calls = Some (calls @ bad_call # []) \<rparr> \<rparr> # []" for calls
    by simp
  have batch: "tool_calls (message \<lparr> message = \<lparr> content = None,
                     tool_calls = Some (calls @ bad_call # []) \<rparr> \<rparr>)
                 = Some (calls @ bad_call # [])" for calls
    by simp
  from processQuery_bad_payload [OF bad_payload_first choice batch bad_call_payload run]
    processQuery_bad_payload [OF unknown_tool_first choice batch bad_call_payload other]
  show ?thesis
    using bad_call_payload bad_payload_invocations bad_payload_rejections
      unknown_tool_rejections
    by simp
qed

text \<open>
  A batch whose first call names a tool that the server does not have, and whose second
  call has a payload that is not JSON: processQuery fails with the rejection of the
  first call, not with a parse error.
\<close>

theorem processQuery_bad_payload_after_rejection:
  "JSON_parse (scenario add_listing) (call_arguments bad_call) = None
   \<and> fst (processQuery (scenario add_listing) ''multiply, then add''
            (connected add_listing unknown_tool_script))
       = Inl (CallToolRejected ''Unknown tool'')"
  by code_simp

section \<open>The order of the steps of a tool call\<close>

text \<open>
  Claim C6, as amended. The trace of callTools is a sequence of blocks, one per tool call
  that the server answered: the console line \<open>Calling tool <name> with args <json>\<close>,
  then the invocation, then the push of the trace line
  \<open>[Calling tool <name> with args <json>]\<close> onto the output text. So the console line
  comes before the tool runs, and the trace line is appended after the tool has
  answered. A rejected invocation comes last, after its console line, and the output
  text gets no trace line for it.
\<close>

theorem callTools_order:
  assumes "callTools rt toolCalls finalText this = (outcome, finalText', this', events)"
  shows "\<exists>answered rest.
           events = concat (map (block rt) answered) @ rest
           \<and> finalText' = finalText @ map (\<lambda>(n, a, r). trace_line rt n a) answered
           \<and> (rest = []
                \<or> (\<exists>toolName arguments x.
                      rest = [Console (calling rt toolName arguments),
                              Invocation toolName arguments (Inl x)]
                      \<and> outcome = Inl (CallToolRejected x)))"
proof -
  from assms have "callTools_loop rt toolCalls [] finalText this
                     = (outcome, finalText', this', events)"
    by (simp add: callTools_def)
  from callTools_loop_blocks [OF this] obtain answered rest where
    "events = concat (map (block rt) answered) @ rest"
    "finalText' = finalText @ map (\<lambda>(n, a, r). trace_line rt n a) answered"
    "case outcome of
       Inr toolResults \<Rightarrow> rest = [] \<and> length answered = length toolCalls
     | Inl SyntaxError \<Rightarrow> rest = []
     | Inl (CallToolRejected x) \<Rightarrow>
         (\<exists>n a. rest = [Console (calling rt n a), Invocation n a (Inl x)])
     | Inl _ \<Rightarrow> False"
    by blast
  then show ?thesis
    by (intro exI [of _ answered] exI [of _ rest])
       (auto split: sum.splits failure.splits)
qed

lemma add_tools_run:
  "callTools (scenario add_listing) [add_call, unknown_call] [] (connected add_listing add_script)
   = (Inl (CallToolRejected ''Unknown tool''),
      [trace_line (scenario add_listing) ''add'' (JObj [(''a'', JNum 2), (''b'', JNum 3)])],
      connected add_listing add_script,
      block (scenario add_listing)
        (''add'', JObj [(''a'', JNum 2), (''b'', JNum 3)],
         \<lparr> result_content = Some (text_content ''5'') \<rparr>)
      @ [Console (calling (scenario add_listing) ''multiply'' (JObj [(''a'', JNum 2), (''b'', JNum 3)])),
         Invocation ''multiply'' (JObj [(''a'', JNum 2), (''b'', JNum 3)]) (Inl ''Unknown tool'')])"
  by code_simp

text \<open>A batch of \<open>add\<close>, answered, and \<open>multiply\<close>, rejected.\<close>

theorem callTools_order_witness:
  "\<exists>answered rest.
     block (scenario add_listing)
        (''add'', JObj [(''a'', JNum 2), (''b'', JNum 3)],
         \<lparr> result_content = Some (text_content ''5'') \<rparr>)
      @ [Console (calling (scenario add_listing) ''multiply'' (JObj [(''a'', JNum 2), (''b'', JNum 3)])),
         Invocation ''multiply'' (JObj [(''a'', JNum 2), (''b'', JNum 3)]) (Inl ''Unknown tool'')]
       = concat (map (block (scenario add_listing)) answered) @ rest
     \<and> [trace_line (scenario add_listing) ''add'' (JObj [(''a'', JNum 2), (''b'', JNum 3)])]
       = [] @ map (\<lambda>(n, a, r). trace_line (scenario add_listing) n a) answered"
  using callTools_order [OF add_tools_run] by blast

text \<open>On one call of \<open>add\<close>, the invocation is on the trace before the push of its
  trace line.\<close>

theorem callTools_invokes_before_trace_line:
  "\<not> emitted_first (scenario add_listing) []
        (snd (snd (snd (callTools (scenario add_listing) [add_call] []
                          (connected add_listing add_script)))))"
  by code_simp

section \<open>Errors in the session loop\<close>

lemma questions_append: "questions (es @ fs) = questions es + questions fs"
  by (induction es rule: questions.induct) simp_all

lemma questions_map_Emit: "questions (map Emit ls) = 0"
  by (induction ls) simp_all

lemma callTools_loop_questions:
  "callTools_loop rt toolCalls acc finalText this = (outcome, finalText', this', events)
     \<Longrightarrow> questions events = 0"
  by (induction toolCalls arbitrary: acc finalText this outcome finalText' this' events)
     (auto split: option.splits prod.splits sum.splits)

lemma processQuery_questions:
  assumes "processQuery rt query this = (outcome, this', events)"
  shows "questions events = 0"
  using assms
  by (cases rule: processQuery_cases)
     (auto simp: questions_append questions_map_Emit callTools_def
           dest: callTools_loop_questions)

lemma chatLoop_while_unanswered:
  assumes "chatLoop_while rt earlier this0 = (Unanswered, this, events0)"
  shows "\<exists>before. events0 = before @ [Question] \<and> questions before = length earlier
           \<and> (\<forall>rest. chatLoop_while rt (earlier @ rest) this0
                  = (case chatLoop_while rt rest this of
                       (ending, this', events) \<Rightarrow> (ending, this', before @ events)))"
  using assms
proof (induction earlier arbitrary: this0 events0)
  case Nil
  then show ?case by simp
next
  case (Cons q qs)
  from Cons.prems have differs: "q \<noteq> ''exit''"
    by (auto split: if_splits)
  obtain outcome this1 events1 where run: "processQuery rt q this0 = (outcome, this1, events1)"
    by (cases "processQuery rt q this0")
  with Cons.prems differs obtain response where answered: "outcome = Inr response"
    by (cases outcome) auto
  obtain ending2 this2 events2 where loop: "chatLoop_while rt qs this1 = (ending2, this2, events2)"
    by (cases "chatLoop_while rt qs this1")
  with Cons.prems differs run answered have
    same: "ending2 = Unanswered" "this2 = this"
          "events0 = Question # events1
                       @ [Console (''\<newline>'' @ ''Response:''), Console response] @ events2"
    by simp_all
  from Cons.IH [OF loop [unfolded same(1,2)]] obtain before where
    ih: "events2 = before @ [Question]" "questions before = length qs"
        "\<forall>rest. chatLoop_while rt (qs @ rest) this1
                  = (case chatLoop_while rt rest this of
                       (ending, this', events) \<Rightarrow> (ending, this', before @ events))"
    by blast
  let ?before = "Question # events1
                   @ [Console (''\<newline>'' @ ''Response:''), Console response] @ before"
  have "events0 = ?before @ [Question]"
    using same(3) ih(1) by simp
  moreover have "questions ?before = length (q # qs)"
    using ih(2) processQuery_questions [OF run] by (simp add: questions_append)
  moreover have "\<forall>rest. chatLoop_while rt ((q # qs) @ rest) this0
                  = (case chatLoop_while rt rest this of
                       (ending, this', events) \<Rightarrow> (ending, this', ?before @ events))"
    using differs run answered ih(3) by (simp split: prod.splits)
  ultimately show ?case
    by blast
qed

text \<open>
  Claim C7, as amended. Let the loop have got through the lines \<open>earlier\<close>, each
  answered by processQuery, and let processQuery fail on the next line. Then the failure
  leaves chatLoop: the loop ends with it, after the line reader is closed, and the lines
  after the failing one are never asked for. The error ends the session loop, not only
  the query.
\<close>

theorem chatLoop_failure_ends_loop:
  assumes "chatLoop_while rt earlier this0 = (Unanswered, this, events0)"
      and "query \<noteq> ''exit''"
      and "processQuery rt query this = (Inl e, this', events)"
  shows "\<exists>before. events0 = before @ [Question]
           \<and> chatLoop rt (earlier @ query # later) this0
               = (Thrown e, this', before @ Question # events @ [Close])
           \<and> questions (before @ Question # events @ [Close]) = length earlier + 1"
proof -
  from chatLoop_while_unanswered [OF assms(1)] obtain before where
    before: "events0 = before @ [Question]" "questions before = length earlier"
      "\<forall>rest. chatLoop_while rt (earlier @ rest) this0
                  = (case chatLoop_while rt rest this of
                       (ending, this', events) \<Rightarrow> (ending, this', before @ events))"
    by blast
  from before(3) assms(2,3) have
    "chatLoop rt (earlier @ query # later) this0
       = (Thrown e, this', before @ Question # events @ [Close])"
    by (simp add: chatLoop_def)
  moreover have "questions (before @ Question # events @ [Close]) = length earlier + 1"
    using before(2) processQuery_questions [OF assms(3)] by (simp add: questions_append)
  ultimately show ?thesis
    using before(1) by blast
qed

lemma greeting_then_bad_loop:
  "chatLoop_while (scenario add_listing) [''hello'']
     (connected add_listing (says (Some ''hi'') None # bad_payload_script))
   = (Unanswered, connected add_listing bad_payload_script,
      [Question,
       Completion
         (create_params (connected add_listing bad_payload_script) [UserMessage ''hello''])
         (says (Some ''hi'') None),
       Emit ''hi'', Console (''\<newline>'' @ ''Response:''), Console ''hi''] @ [Question])"
  by code_simp

text \<open>A session of three lines: a greeting, a query whose batch has a bad payload, and a
  line that is never read.\<close>

theorem chatLoop_failure_ends_loop_witness:
  "''add twice'' \<noteq> ''exit''
   \<and> fst (processQuery (scenario add_listing) ''add twice''
            (connected add_listing bad_payload_script)) = Inl SyntaxError
   \<and> fst (chatLoop (scenario add_listing) ([''hello''] @ ''add twice'' # [''hello again''])
            (connected add_listing (says (Some ''hi'') None # bad_payload_script)))
       = Thrown SyntaxError
   \<and> questions (snd (snd (chatLoop (scenario add_listing)
            ([''hello''] @ ''add twice'' # [''hello again''])
            (connected add_listing (says (Some ''hi'') None # bad_payload_script)))))
       = length [''hello''] + 1"
proof -
  let ?run = "processQuery (scenario add_listing) ''add twice''
                (connected add_listing bad_payload_script)"
  have differs: "''add twice'' \<noteq> ''exit''"
    by simp
  have run: "?run = (Inl SyntaxError, fst (snd ?run), snd (snd ?run))"
    using bad_payload_outcome by (metis prod.collapse)
  from chatLoop_failure_ends_loop [OF greeting_then_bad_loop differs run, of "[''hello again'']"]
    bad_payload_outcome
  show ?thesis
    by auto
qed

text \<open>
  Two lines are waiting; processQuery throws a parse error on the first. The loop ends
  with that error, having asked for one line only.
\<close>

theorem chatLoop_ends_on_parse_error:
  "fst (chatLoop (scenario add_listing) [''add twice'', ''hello'']
          (connected add_listing bad_payload_script)) = Thrown SyntaxError
   \<and> questions (snd (snd (chatLoop (scenario add_listing) [''add twice'', ''hello'']
          (connected add_listing bad_payload_script)))) = 1
   \<and> last (snd (snd (chatLoop (scenario add_listing) [''add twice'', ''hello'']
          (connected add_listing bad_payload_script)))) = Close"
  by code_simp

section \<open>The message lists of a query\<close>

lemma user_texts_tool_messages: "user_texts (map (tool_message rt) rs) = []"
  by (induction rs) (simp_all add: tool_message_def)

lemma tool_call_ids_tool_messages:
  "tool_call_ids (map (tool_message rt) rs) = map toolCallId rs"
  by (induction rs) (simp_all add: tool_message_def)

lemma referenced_tool_messages:
  "referenced ids (map (tool_message rt) rs) \<longleftrightarrow> set (map toolCallId rs) \<subseteq> set ids"
  by (induction rs) (auto simp: tool_message_def)

lemma tool_messages_zip:
  "map (tool_message rt) rs
   = map2 ToolMessage
       (map (\<lambda>r. map_option (JSON_stringify rt) (result_content (result r))) rs)
       (map toolCallId rs)"
  by (induction rs) (simp_all add: tool_message_def)

text \<open>
  Claim C8. Whatever the state of the client and of its collaborators when processQuery
  is called, the first thing it does is a call to the completion API with the message
  list of exactly one user message, the query; and in every request of the run, the only
  user message is that query. The fields of the client, the transport and the tool
  specs, are after the run what they were before it.
\<close>

theorem processQuery_fresh_messages:
  assumes "processQuery rt query this = (outcome, this', events)"
  shows "transport this' = transport this \<and> tools this' = tools this
         \<and> (\<exists>params reply later.
               events = Completion params reply # later \<and> messages params = [UserMessage query])
         \<and> (\<forall>(params, reply) \<in> set (completions events).
               user_texts (messages params) = [query])"
  using assms
proof (cases rule: processQuery_cases)
  case (tools_failed response w choice others toolCalls e finalText2 tool_events)
  then show ?thesis
    using callTools_completions [OF tools_failed(4)] callTools_client [OF tools_failed(4)]
    by (simp add: completions_append completions_map_Emit create_params_def)
next
  case (rejected_again response w choice others toolCalls toolResults finalText2 this2 tool_events x w2)
  then show ?thesis
    using callTools_completions [OF rejected_again(4)] callTools_client [OF rejected_again(4)]
    by (simp add: completions_append completions_map_Emit create_params_def
        user_texts_tool_messages)
next
  case (no_final_choice response w choice others toolCalls toolResults finalText2 this2 tool_events response2 w2)
  then show ?thesis
    using callTools_completions [OF no_final_choice(4)] callTools_client [OF no_final_choice(4)]
    by (simp add: completions_append completions_map_Emit create_params_def
        user_texts_tool_messages)
next
  case (answered response w choice others toolCalls toolResults finalText2 this2 tool_events
      response2 w2 finalChoice others2)
  then show ?thesis
    using callTools_completions [OF answered(4)] callTools_client [OF answered(4)]
    by (simp add: completions_append completions_map_Emit create_params_def
        user_texts_tool_messages)
qed (simp_all add: completions_map_Emit create_params_def)

lemma second_query_messages:
  "map (messages \<circ> fst)
     (completions (snd (snd (processQuery (scenario add_listing) ''add 2 and 3''
        (fst (snd (processQuery (scenario add_listing) ''hello''
                     (connected add_listing (says (Some ''hi'') None # add_script)))))))))
   = [[UserMessage ''add 2 and 3''],
      [UserMessage ''add 2 and 3'', AssistantMessage [] [add_call],
       ToolMessage (Some (json_stringify (text_content ''5''))) ''call_1'']]"
  by code_simp

text \<open>Two queries in a row on one client: the requests of the second carry nothing of
  the first.\<close>

theorem processQuery_fresh_messages_witness:
  "map (messages \<circ> fst)
       (completions (snd (snd (processQuery (scenario add_listing) ''add 2 and 3''
          (fst (snd (processQuery (scenario add_listing) ''hello''
                       (connected add_listing (says (Some ''hi'') None # add_script)))))))))
     = [[UserMessage ''add 2 and 3''],
        [UserMessage ''add 2 and 3'', AssistantMessage [] [add_call],
         ToolMessage (Some (json_stringify (text_content ''5''))) ''call_1'']]
   \<and> user_texts [UserMessage ''add 2 and 3'', AssistantMessage [] [add_call],
         ToolMessage (Some (json_stringify (text_content ''5''))) ''call_1'']
     = [''add 2 and 3'']
   \<and> tools (fst (snd (processQuery (scenario add_listing) ''add 2 and 3''
          (fst (snd (processQuery (scenario add_listing) ''hello''
                       (connected add_listing (says (Some ''hi'') None # add_script))))))))
     = tools (connected add_listing (says (Some ''hi'') None # add_script))
   \<and> transport (fst (snd (processQuery (scenario add_listing) ''add 2 and 3''
          (fst (snd (processQuery (scenario add_listing) ''hello''
                       (connected add_listing (says (Some ''hi'') None # add_script))))))))
     = transport (connected add_listing (says (Some ''hi'') None # add_script))"
proof -
  let ?first = "processQuery (scenario add_listing) ''hello''
                  (connected add_listing (says (Some ''hi'') None # add_script))"
  let ?second = "processQuery (scenario add_listing) ''add 2 and 3'' (fst (snd ?first))"
  have first: "?first = (fst ?first, fst (snd ?first), snd (snd ?first))"
    by simp
  have second: "?second = (fst ?second, fst (snd ?second), snd (snd ?second))"
    by simp
  from processQuery_fresh_messages [OF first] processQuery_fresh_messages [OF second]
    second_query_messages
  show ?thesis
    by simp
qed

text \<open>
  Claim C9. When processQuery has made a second call to the completion API, the message
  list of that call is the user message, then the assistant message with the tool calls
  of the first reply, then one tool message per tool call, each with the id of its call,
  in the order of the batch. So every tool message in it carries an id of the assistant
  message just before the tool messages.
\<close>

theorem processQuery_tool_messages:
  assumes "processQuery rt query this = (outcome, this', events)"
      and "completions events = [first, (params2, reply2)]"
  shows "\<exists>response choice others toolCalls contents.
           snd first = Inr response
           \<and> choices response = choice # others
           \<and> tool_calls (message choice) = Some toolCalls
           \<and> length contents = length toolCalls
           \<and> messages params2
               = UserMessage query
                 # AssistantMessage (string_or (content (message choice)) []) toolCalls
                 # map2 ToolMessage contents (map call_id toolCalls)
           \<and> referenced [] (messages params2)
           \<and> tool_call_ids (messages params2) = map call_id toolCalls"
proof -
  have shape:
    "\<exists>response choice others toolCalls contents.
           snd first = Inr response
           \<and> choices response = choice # others
           \<and> tool_calls (message choice) = Some toolCalls
           \<and> length contents = length toolCalls
           \<and> messages params2
               = UserMessage query
                 # AssistantMessage (string_or (content (message choice)) []) toolCalls
                 # map2 ToolMessage contents (map call_id toolCalls)
           \<and> referenced [] (messages params2)
           \<and> tool_call_ids (messages params2) = map call_id toolCalls"
    if calls: "callTools rt toolCalls finalText this1 = (Inr toolResults, finalText2, this2, tool_events)"
      and first: "first = (params1, Inr response)"
      and choice: "choices response = choice # others" "tool_calls (message choice) = Some toolCalls"
      and second: "params2 = create_params this2
                     ([UserMessage query]
                        @ [AssistantMessage (string_or (content (message choice)) []) toolCalls]
                        @ map (tool_message rt) toolResults)"
    for toolCalls finalText this1 toolResults finalText2 this2 tool_events params1 response
      choice others
  proof -
    let ?contents = "map (\<lambda>r. map_option (JSON_stringify rt) (result_content (result r))) toolResults"
    note ids = callTools_ids [OF calls]
    have "length ?contents = length toolCalls"
      using ids by (metis length_map)
    moreover have "messages params2
               = UserMessage query
                 # AssistantMessage (string_or (content (message choice)) []) toolCalls
                 # map2 ToolMessage ?contents (map call_id toolCalls)"
      using second ids by (simp add: create_params_def tool_messages_zip)
    moreover have "referenced [] (messages params2)"
      using second ids by (simp add: create_params_def referenced_tool_messages)
    moreover have "tool_call_ids (messages params2) = map call_id toolCalls"
      using second ids by (simp add: create_params_def tool_call_ids_tool_messages)
    ultimately show ?thesis
      using first choice by (intro exI [of _ response] exI [of _ choice] exI [of _ others]
          exI [of _ toolCalls] exI [of _ ?contents]) simp
  qed
  from assms(1) show ?thesis
  proof (cases rule: processQuery_cases)
    case (tools_failed response w choice others toolCalls e finalText2 tool_events)
    with assms(2) callTools_completions [OF tools_failed(4)] show ?thesis
      by (simp add: completions_append completions_map_Emit)
  next
    case (rejected_again response w choice others toolCalls toolResults finalText2 this2
        tool_events x w2)
    with assms(2) callTools_completions [OF rejected_again(4)] have
      "first = (create_params this [UserMessage query], Inr response)"
      "params2 = create_params this2
                     ([UserMessage query]
                        @ [AssistantMessage (string_or (content (message choice)) []) toolCalls]
                        @ map (tool_message rt) toolResults)"
      by (simp_all add: completions_append completions_map_Emit)
    then show ?thesis
      by (rule shape [OF rejected_again(4) _ rejected_again(2,3)])
  next
    case (no_final_choice response w choice others toolCalls toolResults finalText2 this2
        tool_events response2 w2)
    with assms(2) callTools_completions [OF no_final_choice(4)] have
      "first = (create_params this [UserMessage query], Inr response)"
      "params2 = create_params this2
                     ([UserMessage query]
                        @ [AssistantMessage (string_or (content (message choice)) []) toolCalls]
                        @ map (tool_message rt) toolResults)"
      by (simp_all add: completions_append completions_map_Emit)
    then show ?thesis
      by (rule shape [OF no_final_choice(4) _ no_final_choice(2,3)])
  next
    case (answered response w choice others toolCalls toolResults finalText2 this2 tool_events
        response2 w2 finalChoice others2)
    with assms(2) callTools_completions [OF answered(4)] have
      "first = (create_params this [UserMessage query], Inr response)"
      "params2 = create_params this2
                     ([UserMessage query]
                        @ [AssistantMessage (string_or (content (message choice)) []) toolCalls]
                        @ map (tool_message rt) toolResults)"
      by (simp_all add: completions_append completions_map_Emit)
    then show ?thesis
      by (rule shape [OF answered(4) _ answered(2,3)])
  qed (use assms(2) in \<open>simp_all add: completions_map_Emit\<close>)
qed

lemma add_run_completions:
  "completions (snd (snd (processQuery (scenario add_listing) ''add 2 and 3''
              (connected add_listing add_script))))
   = [(create_params (connected add_listing add_script) [UserMessage ''add 2 and 3''],
       says None (Some [add_call])),
      (create_params (connected add_listing add_script)
         [UserMessage ''add 2 and 3'', AssistantMessage [] [add_call],
          ToolMessage (Some (json_stringify (text_content ''5''))) ''call_1''],
       says (Some ''The sum is 5'') None)]"
  by code_simp

text \<open>The second request of the scenario of \<open>add\<close>.\<close>

theorem processQuery_tool_messages_witness:
  "referenced []
     [UserMessage ''add 2 and 3'', AssistantMessage [] [add_call],
      ToolMessage (Some (json_stringify (text_content ''5''))) ''call_1'']
   \<and> tool_call_ids
       [UserMessage ''add 2 and 3'', AssistantMessage [] [add_call],
        ToolMessage (Some (json_stringify (text_content ''5''))) ''call_1'']
     = map call_id [add_call]"
proof -
  let ?run = "processQuery (scenario add_listing) ''add 2 and 3'' (connected add_listing add_script)"
  have run: "?run = (fst ?run, fst (snd ?run), snd (snd ?run))"
    by simp
  from processQuery_tool_messages [OF run add_run_completions]
  show ?thesis
    by (auto simp: says_def create_params_def)
qed

text \<open>
  Claim C10. When the first reply has a list of tool calls that is empty, processQuery
  goes on to the second round: it calls the completion API again, with the user message
  and an assistant message and no tool message, and it invokes no tool.
\<close>

theorem processQuery_empty_batch:
  assumes "completions_create rt (create_params this [UserMessage query]) (peers this)
             = (Inr response, w)"
      and "choices response = choice # others"
      and "tool_calls (message choice) = Some []"
  shows "\<exists>outcome this' params2 reply2 later.
           processQuery rt query this
             = (outcome, this',
                Completion (create_params this [UserMessage query]) (Inr response)
                  # map Emit (pushed (content (message choice)))
                  @ Completion params2 reply2 # later)
           \<and> messages params2
               = [UserMessage query,
                  AssistantMessage (string_or (content (message choice)) []) []]
           \<and> invocations (snd (snd (processQuery rt query this))) = []
           \<and> length (completions (snd (snd (processQuery rt query this)))) = 2"
  using assms unfolding processQuery_def Let_def callTools_def
  by (auto simp: create_params_def invocations_append invocations_map_Emit
        completions_append completions_map_Emit
      split: prod.splits sum.splits list.splits)

lemma empty_batch_first:
  "completions_create (scenario [])
     (create_params (connected [] empty_batch_script) [UserMessage ''hello''])
     (peers (connected [] empty_batch_script))
   = (Inr \<lparr> choices = [\<lparr> message = \<lparr> content = Some ''hi'', tool_calls = Some [] \<rparr> \<rparr>] \<rparr>,
      [says (Some ''again'') None])"
  by code_simp

text \<open>The reply \<open>hi\<close> with an empty list of tool calls.\<close>

theorem processQuery_empty_batch_witness:
  "tool_calls (message \<lparr> message = \<lparr> content = Some ''hi'', tool_calls = Some [] \<rparr> \<rparr>) = Some []
   \<and> invocations (snd (snd (processQuery (scenario []) ''hello''
                                 (connected [] empty_batch_script)))) = []
   \<and> map (messages \<circ> fst) (completions (snd (snd (processQuery (scenario []) ''hello''
                                 (connected [] empty_batch_script)))))
       = [[UserMessage ''hello''], [UserMessage ''hello'', AssistantMessage ''hi'' []]]"
proof -
  have choice: "choices \<lparr> choices = [\<lparr> message = \<lparr> content = Some ''hi'', tool_calls = Some [] \<rparr> \<rparr>] \<rparr>
                  = \<lparr> message = \<lparr> content = Some ''hi'', tool_calls = Some [] \<rparr> \<rparr> # []"
    by simp
  have batch: "tool_calls (message \<lparr> message = \<lparr> content = Some ''hi'', tool_calls = Some [] \<rparr> \<rparr>)
                 = Some []"
    by simp
  from processQuery_empty_batch [OF empty_batch_first choice batch]
  show ?thesis
    by (auto simp: create_params_def completions_append pushed_def string_or_def)
qed

end
